(* ===== verification/Prelude.thy ===== *)
theory Prelude
  imports Main "HOL-Library.Sublist"
begin

text \<open>
  Shared vocabulary of the development: the types that name times and terminal
  identifiers, the JavaScript string operations the tool uses to build its replies
  (\<open>String.prototype.trim\<close>, printing a number into a template literal, the
  truthiness of a string), the named theorem collections the component theories
  fill, and the generic lemmas on lists and strings they share.
\<close>

named_theorems reply_simps "equations that evaluate the reply texts of the tool"
named_theorems registry_simps "equations of the terminal registry operations"

type_synonym ms = nat
type_synonym term_id = nat

text \<open>The timeout the tool assumes when none is given (\<open>300000\<close> ms, five minutes).\<close>

definition default_timeout :: int where
  "default_timeout = 300000"

section \<open>Characters and JavaScript strings\<close>

definition nl :: char where
  "nl = CHR 0x0A"

text \<open>
  The white space that \<open>String.prototype.trim\<close> removes, restricted to the
  one-byte characters of the model: tab, line feed, vertical tab, form feed,
  carriage return and space. (The Unicode separators above U+007F are several bytes
  in the UTF-8 view of a \<open>string\<close> and are not modelled.)
\<close>

definition is_js_space :: "char \<Rightarrow> bool" where
  "is_js_space c \<longleftrightarrow> c \<in> {CHR 0x09, CHR 0x0A, CHR 0x0B, CHR 0x0C, CHR 0x0D, CHR 0x20}"

definition js_trim :: "string \<Rightarrow> string" where
  "js_trim s = rev (dropWhile is_js_space (rev (dropWhile is_js_space s)))"

text \<open>A string is truthy in JavaScript exactly when it is not empty.\<close>

definition js_truthy :: "string \<Rightarrow> bool" where
  "js_truthy s \<longleftrightarrow> s \<noteq> []"

section \<open>Printing numbers into template literals\<close>

definition digit_char :: "nat \<Rightarrow> char" where
  "digit_char d = char_of (48 + d)"

fun nat_str :: "nat \<Rightarrow> string" where
  "nat_str n = (if n < 10 then [digit_char n] else nat_str (n div 10) @ [digit_char (n mod 10)])"

declare nat_str.simps [simp del]

definition int_str :: "int \<Rightarrow> string" where
  "int_str i = (if i < 0 then CHR ''-'' # nat_str (nat (- i)) else nat_str (nat i))"

text \<open>Reading a decimal numeral back, as a client reads an identifier out of a reply.\<close>

definition digit_val :: "char \<Rightarrow> nat option" where
  "digit_val c = (let k = (of_char c :: nat) in if 48 \<le> k \<and> k < 58 then Some (k - 48) else None)"

fun read_digits :: "nat \<Rightarrow> string \<Rightarrow> nat option" where
  "read_digits acc [] = Some acc"
| "read_digits acc (c # cs) =
     (case digit_val c of None \<Rightarrow> None | Some d \<Rightarrow> read_digits (10 * acc + d) cs)"

definition read_nat :: "string \<Rightarrow> nat option" where
  "read_nat s = (if s = [] then None else read_digits 0 s)"

section \<open>Lemmas on strings\<close>

lemma js_truthy_Nil [simp]: "\<not> js_truthy []"
  and js_truthy_Cons [simp]: "js_truthy (c # s)"
  by (simp_all add: js_truthy_def)

lemma js_trim_Nil [simp]: "js_trim [] = []"
  by (simp add: js_trim_def)

lemma dropWhile_id_iff: "dropWhile P xs = xs \<longleftrightarrow> xs = [] \<or> \<not> P (hd xs)"
proof (cases xs)
  case (Cons x ys)
  have "length (dropWhile P ys) \<noteq> length (x # ys)"
    using length_dropWhile_le [of P ys] by simp
  then show ?thesis using Cons by auto
qed simp

lemma js_trim_rev_stripped:
  "dropWhile is_js_space (rev (js_trim s)) = rev (js_trim s)"
  by (simp add: js_trim_def)

lemma js_trim_stripped: "dropWhile is_js_space (js_trim s) = js_trim s"
proof -
  define a where "a = dropWhile is_js_space s"
  define b where "b = dropWhile is_js_space (rev a)"
  have t: "js_trim s = rev b" by (simp add: js_trim_def a_def b_def)
  show ?thesis
  proof (cases "b = []")
    case True
    then show ?thesis by (simp add: t)
  next
    case False
    then have nb: "\<not> is_js_space (hd b)" by (simp add: b_def hd_dropWhile)
    have "hd b \<in> set (rev a)"
      using False by (metis b_def hd_in_set set_dropWhileD)
    then have "last b = last (rev a)"
      using nb by (simp add: b_def dropWhile_last)
    moreover have "a \<noteq> []" using False by (auto simp: b_def)
    ultimately have "last b = hd a" by (simp add: last_rev)
    moreover have "\<not> is_js_space (hd a)"
      using \<open>a \<noteq> []\<close> by (simp add: a_def hd_dropWhile)
    ultimately show ?thesis
      using False by (simp add: t dropWhile_id_iff hd_rev)
  qed
qed

lemma js_trim_idem [simp]: "js_trim (js_trim s) = js_trim s"
  using js_trim_stripped [of s] js_trim_rev_stripped [of s]
  by (simp add: js_trim_def [of "js_trim s"])

lemma digit_val_digit_char [simp]: "d < 10 \<Longrightarrow> digit_val (digit_char d) = Some d"
  by (simp add: digit_val_def digit_char_def)

lemma read_digits_append:
  "read_digits acc (xs @ ys) =
     (case read_digits acc xs of None \<Rightarrow> None | Some a \<Rightarrow> read_digits a ys)"
  by (induction acc xs rule: read_digits.induct) (auto split: option.splits)

lemma nat_str_small [simp]: "n < 10 \<Longrightarrow> nat_str n = [digit_char n]"
  by (simp add: nat_str.simps)

lemma nat_str_big: "\<not> n < 10 \<Longrightarrow> nat_str n = nat_str (n div 10) @ [digit_char (n mod 10)]"
  by (simp add: nat_str.simps [of n])

lemma nat_str_not_Nil [simp]: "nat_str n \<noteq> []"
  by (cases "n < 10") (simp_all add: nat_str_big)

lemma read_digits_nat_str:
  "read_digits acc (nat_str n) = Some (acc * 10 ^ length (nat_str n) + n)"
proof (induction n arbitrary: acc rule: nat_str.induct)
  case (1 n)
  show ?case
  proof (cases "n < 10")
    case True
    then show ?thesis by simp
  next
    case False
    then have "read_digits acc (nat_str n) =
      read_digits (acc * 10 ^ length (nat_str (n div 10)) + n div 10) [digit_char (n mod 10)]"
      using "1.IH" by (simp add: nat_str_big read_digits_append)
    also have "\<dots> = Some (acc * 10 ^ length (nat_str n) + n)"
      using False by (simp add: nat_str_big algebra_simps)
    finally show ?thesis .
  qed
qed

lemma read_nat_nat_str [simp]: "read_nat (nat_str n) = Some n"
  by (simp add: read_nat_def read_digits_nat_str)

lemma nat_str_digits: "c \<in> set (nat_str n) \<Longrightarrow> digit_val c \<noteq> None"
proof (induction n rule: nat_str.induct)
  case (1 n)
  then show ?case by (cases "n < 10") (auto simp: nat_str_big)
qed

end
