(* ===== verification/Registry.thy ===== *)
theory Registry
  imports Prelude
begin

text \<open>
  The terminal session registry (\<open>TerminalManager\<close>, imported by
  \<open>src/packages/extension/src/tools/execute_command.ts\<close> but not part of the
  sources): a pool of terminals, each bound to a working directory, with a counter
  that numbers new terminals. \<open>get_or_create\<close> is \<open>getOrCreateTerminal\<close> as the
  specification (section 4.1) describes it; \<open>close_terminal\<close> is the shell being
  closed by the user, the only way a session dies. The theory proves that the
  registry keeps its identifiers fresh and distinct and at most one live terminal per
  directory in every reachable state, and that acquiring a terminal is idempotent.
\<close>

record terminal_info =
  tid :: term_id
  tcwd :: string
  alive :: bool

record registry =
  terms :: "terminal_info list"
  next_id :: term_id

definition empty_registry :: registry where
  "empty_registry = \<lparr>terms = [], next_id = 1\<rparr>"

definition find_live :: "string \<Rightarrow> registry \<Rightarrow> terminal_info option" where
  "find_live cwd r = find (\<lambda>t. alive t \<and> tcwd t = cwd) (terms r)"

definition get_or_create :: "string \<Rightarrow> registry \<Rightarrow> terminal_info \<times> registry" where
  "get_or_create cwd r =
     (case find_live cwd r of
        Some t \<Rightarrow> (t, r)
      | None \<Rightarrow>
          (let t = \<lparr>tid = next_id r, tcwd = cwd, alive = True\<rparr>
           in (t, r\<lparr>terms := terms r @ [t], next_id := Suc (next_id r)\<rparr>)))"

definition close_terminal :: "term_id \<Rightarrow> registry \<Rightarrow> registry" where
  "close_terminal i r =
     r\<lparr>terms := map (\<lambda>t. if tid t = i then t\<lparr>alive := False\<rparr> else t) (terms r)\<rparr>"

definition reg_inv :: "registry \<Rightarrow> bool" where
  "reg_inv r \<longleftrightarrow>
     distinct (map tid (terms r)) \<and>
     list_all (\<lambda>t. tid t < next_id r) (terms r) \<and>
     distinct (map tcwd (filter alive (terms r)))"

datatype reg_op = Acquire string | Close term_id

fun reg_apply :: "registry \<Rightarrow> reg_op \<Rightarrow> registry" where
  "reg_apply r (Acquire cwd) = snd (get_or_create cwd r)"
| "reg_apply r (Close i) = close_terminal i r"

inductive reg_reachable :: "registry \<Rightarrow> bool" where
  init: "reg_reachable empty_registry"
| step: "reg_reachable r \<Longrightarrow> reg_reachable (reg_apply r op)"

definition close_upd :: "term_id \<Rightarrow> terminal_info \<Rightarrow> terminal_info" where
  "close_upd i t = (if tid t = i then t\<lparr>alive := False\<rparr> else t)"

inductive_simps reg_reachable_init_simps: "reg_reachable empty_registry"

lemma find_live_Some:
  "find_live cwd r = Some t \<Longrightarrow> t \<in> set (terms r) \<and> alive t \<and> tcwd t = cwd"
  by (auto simp: find_live_def find_Some_iff nth_mem)

lemma find_live_None:
  "find_live cwd r = None \<longleftrightarrow> (\<forall>t\<in>set (terms r). \<not> (alive t \<and> tcwd t = cwd))"
  by (auto simp: find_live_def find_None_iff)

lemma get_or_create_reuse [registry_simps]:
  "find_live cwd r = Some t \<Longrightarrow> get_or_create cwd r = (t, r)"
  by (simp add: get_or_create_def)

lemma get_or_create_new [registry_simps]:
  "find_live cwd r = None \<Longrightarrow>
   get_or_create cwd r =
     (\<lparr>tid = next_id r, tcwd = cwd, alive = True\<rparr>,
      r\<lparr>terms := terms r @ [\<lparr>tid = next_id r, tcwd = cwd, alive = True\<rparr>],
        next_id := Suc (next_id r)\<rparr>)"
  by (simp add: get_or_create_def Let_def)

lemma get_or_create_cases:
  obtains (reuse) t where "find_live cwd r = Some t" "get_or_create cwd r = (t, r)"
  | (new) "find_live cwd r = None"
    "get_or_create cwd r =
       (\<lparr>tid = next_id r, tcwd = cwd, alive = True\<rparr>,
        r\<lparr>terms := terms r @ [\<lparr>tid = next_id r, tcwd = cwd, alive = True\<rparr>],
          next_id := Suc (next_id r)\<rparr>)"
  by (cases "find_live cwd r") (auto simp: registry_simps)

lemma reg_inv_empty: "reg_inv empty_registry"
  by (simp add: reg_inv_def empty_registry_def)

lemma get_or_create_inv:
  assumes "reg_inv r"
  shows "reg_inv (snd (get_or_create cwd r))"
proof (cases rule: get_or_create_cases [of cwd r])
  case (reuse t)
  then show ?thesis using assms by simp
next
  case new
  have "next_id r \<notin> set (map tid (terms r))"
    using assms by (auto simp: reg_inv_def list_all_iff)
  moreover have "cwd \<notin> set (map tcwd (filter alive (terms r)))"
    using new(1) by (auto simp: find_live_None)
  ultimately show ?thesis
    using assms new(2) by (auto simp: reg_inv_def list_all_iff)
qed

lemma close_terminal_terms: "terms (close_terminal i r) = map (close_upd i) (terms r)"
  by (simp add: close_terminal_def close_upd_def [abs_def])

lemma tid_close_upd [simp]: "tid (close_upd i t) = tid t"
  and tcwd_close_upd [simp]: "tcwd (close_upd i t) = tcwd t"
  by (simp_all add: close_upd_def)

lemma alive_close_upd [simp]: "alive (close_upd i t) \<longleftrightarrow> alive t \<and> tid t \<noteq> i"
  by (simp add: close_upd_def)

lemma live_cwds_close_subset:
  "set (map tcwd (filter alive (map (close_upd i) ts))) \<subseteq> set (map tcwd (filter alive ts))"
  by (induction ts) auto

lemma live_cwds_close_distinct:
  "distinct (map tcwd (filter alive ts)) \<Longrightarrow>
   distinct (map tcwd (filter alive (map (close_upd i) ts)))"
proof (induction ts)
  case (Cons t ts)
  then show ?case using live_cwds_close_subset [of i ts] by (auto split: if_splits)
qed simp

lemma close_terminal_inv: "reg_inv r \<Longrightarrow> reg_inv (close_terminal i r)"
  by (simp add: reg_inv_def close_terminal_terms map_map comp_def list_all_iff
      live_cwds_close_distinct)
    (simp add: close_terminal_def)

lemma reg_apply_inv: "reg_inv r \<Longrightarrow> reg_inv (reg_apply r op)"
  by (cases op) (simp_all add: get_or_create_inv close_terminal_inv)

lemma find_live_unique:
  assumes "reg_inv r" "t \<in> set (terms r)" "alive t" "tcwd t = cwd"
  shows "find_live cwd r = Some t"
proof -
  obtain t' where t': "find_live cwd r = Some t'"
    using assms find_live_None by (cases "find_live cwd r") auto
  then have t'_in: "t' \<in> set (terms r)" "alive t'" "tcwd t' = cwd"
    using find_live_Some by blast+
  have "distinct (map tcwd (filter alive (terms r)))"
    using assms(1) by (simp add: reg_inv_def)
  then have "inj_on tcwd (set (filter alive (terms r)))"
    by (simp add: distinct_map)
  then have "t' = t"
    using assms t'_in by (auto dest: inj_onD)
  with t' show ?thesis by simp
qed

lemma get_or_create_result:
  "get_or_create cwd r = (t, r') \<Longrightarrow>
   tcwd t = cwd \<and> alive t \<and> t \<in> set (terms r')"
  by (cases rule: get_or_create_cases [of cwd r]) (auto dest: find_live_Some)

lemma find_append_Some:
  "find P xs = None \<Longrightarrow> find P (xs @ ys) = find P ys"
  by (induction xs) auto

lemma find_live_after_acquire:
  "find_live cwd (snd (get_or_create cwd r)) = Some (fst (get_or_create cwd r))"
proof (cases rule: get_or_create_cases [of cwd r])
  case (reuse t)
  then show ?thesis by simp
next
  case new
  then show ?thesis by (simp add: find_live_def find_append_Some)
qed

text \<open>
  C10: in every registry reachable from the empty one by acquiring terminals and by
  terminals being closed, terminal identifiers are distinct and below the counter,
  and at most one live terminal is bound to each working directory.
\<close>

theorem reg_reachable_invariant:
  "reg_reachable r \<Longrightarrow> reg_inv r"
proof (induction rule: reg_reachable.induct)
  case init
  show ?case by (rule reg_inv_empty)
next
  case (step r op)
  from step.IH show ?case by (rule reg_apply_inv)
qed

theorem reg_reachable_invariant_witness:
  "reg_reachable (reg_apply (reg_apply empty_registry (Acquire ''/ws'')) (Close 1)) \<and>
   reg_inv (reg_apply (reg_apply empty_registry (Acquire ''/ws'')) (Close 1))"
proof -
  have r: "reg_reachable (reg_apply (reg_apply empty_registry (Acquire ''/ws'')) (Close 1))"
    by (intro reg_reachable.step reg_reachable.init)
  show ?thesis using r reg_reachable_invariant [OF r] by simp
qed

text \<open>
  C11: acquiring a terminal for a directory twice in a row yields the same terminal
  and leaves the registry as the first acquisition left it.
\<close>

theorem get_or_create_idempotent:
  "get_or_create cwd (snd (get_or_create cwd r)) = get_or_create cwd r"
  using find_live_after_acquire [of cwd r]
  by (cases "get_or_create cwd r") (simp add: get_or_create_reuse)

text \<open>
  C12: the terminal returned for a directory is live and bound to that directory,
  and it belongs to the registry afterwards; a terminal bound to another directory is
  never returned.
\<close>

theorem get_or_create_binds_cwd:
  "tcwd (fst (get_or_create cwd r)) = cwd \<and> alive (fst (get_or_create cwd r)) \<and>
   fst (get_or_create cwd r) \<in> set (terms (snd (get_or_create cwd r)))"
  using get_or_create_result [of cwd r "fst (get_or_create cwd r)" "snd (get_or_create cwd r)"]
  by simp

text \<open>
  C13: in a registry satisfying the invariant, when a live terminal is bound to the
  directory, acquiring returns exactly that terminal and creates nothing.
\<close>

theorem get_or_create_reuses_live:
  assumes "reg_inv r" "t \<in> set (terms r)" "alive t" "tcwd t = cwd"
  shows "get_or_create cwd r = (t, r)"
  using find_live_unique [OF assms] by (rule get_or_create_reuse)

theorem get_or_create_reuses_live_witness:
  "reg_inv \<lparr>terms = [\<lparr>tid = 1, tcwd = ''/ws'', alive = True\<rparr>], next_id = 2\<rparr> \<and>
   get_or_create ''/ws'' \<lparr>terms = [\<lparr>tid = 1, tcwd = ''/ws'', alive = True\<rparr>], next_id = 2\<rparr> =
     (\<lparr>tid = 1, tcwd = ''/ws'', alive = True\<rparr>,
      \<lparr>terms = [\<lparr>tid = 1, tcwd = ''/ws'', alive = True\<rparr>], next_id = 2\<rparr>)"
proof -
  have a: "reg_inv \<lparr>terms = [\<lparr>tid = 1, tcwd = ''/ws'', alive = True\<rparr>], next_id = 2\<rparr>"
    by (simp add: reg_inv_def)
  show ?thesis
    using a get_or_create_reuses_live [OF a, of "\<lparr>tid = 1, tcwd = ''/ws'', alive = True\<rparr>"]
    by simp
qed

end
