(* ===== verification/Process.thy ===== *)
theory Process
  imports Prelude
begin

text \<open>
  The command process handle and the three listeners that \<open>execute\<close>
  (\<open>src/packages/extension/src/tools/execute_command.ts\<close>, lines 77--89) attaches
  to it. The handle itself (\<open>TerminalManager.runCommand\<close>) is not part of the
  sources; it is modelled from the specification (sections 3 and 4.2) as a
  \<^emph>\<open>timed event stream\<close>: a list of events stamped with the milliseconds since the
  command started, and the time at which the awaitable handle resolves (\<open>None\<close>
  when the command never finishes). The listeners are a state record updated once
  per delivered event: \<open>on("line")\<close> appends the line and a newline to \<open>result\<close>,
  \<open>once("completed")\<close> sets \<open>completed\<close>, \<open>once("no_shell_integration")\<close> shows
  the warning. A \<open>once\<close> listener is removed after it has fired, which the record
  keeps as an \<open>armed\<close> flag.
\<close>

datatype proc_event = Line string | Completed | NoShellIntegration

type_synonym timed_event = "ms \<times> proc_event"

record proc_run =
  events :: "timed_event list"
  finish :: "ms option"

text \<open>
  What the specification promises of a stream: events come in time order, at most one
  \<open>Completed\<close>, nothing after it, and the handle resolves no earlier than the
  \<open>Completed\<close> event it follows.
\<close>

fun after_completed_ok :: "proc_event list \<Rightarrow> bool" where
  "after_completed_ok [] = True"
| "after_completed_ok (Completed # es) = (es = [])"
| "after_completed_ok (e # es) = after_completed_ok es"

definition wf_run :: "proc_run \<Rightarrow> bool" where
  "wf_run p \<longleftrightarrow>
     sorted (map fst (events p)) \<and>
     after_completed_ok (map snd (events p)) \<and>
     list_all (\<lambda>(t, e). e = Completed \<longrightarrow> (case finish p of None \<Rightarrow> False | Some f \<Rightarrow> t \<le> f)) (events p)"

definition shell_warning :: string where
  "shell_warning = ''Shell integration is not available. Some features may be limited.''"

record listeners =
  result :: string
  completed :: bool
  completed_armed :: bool
  nsi_armed :: bool
  warnings :: "string list"

definition listeners0 :: listeners where
  "listeners0 = \<lparr>result = [], completed = False, completed_armed = True, nsi_armed = True,
     warnings = []\<rparr>"

fun on_event :: "listeners \<Rightarrow> proc_event \<Rightarrow> listeners" where
  "on_event ls (Line l) = ls\<lparr>result := result ls @ l @ [nl]\<rparr>"
| "on_event ls Completed =
     (if completed_armed ls then ls\<lparr>completed := True, completed_armed := False\<rparr> else ls)"
| "on_event ls NoShellIntegration =
     (if nsi_armed ls
      then ls\<lparr>warnings := warnings ls @ [shell_warning], nsi_armed := False\<rparr> else ls)"

fun deliver :: "listeners \<Rightarrow> proc_event list \<Rightarrow> listeners" where
  "deliver ls [] = ls"
| "deliver ls (e # es) = deliver (on_event ls e) es"

text \<open>
  The events the listeners have received by a given time: every event stamped
  strictly before it, in stream order. An event stamped exactly at the time the
  caller resumes is taken to arrive after it (the tie between two timers due at the
  same millisecond is resolved against the event).
\<close>

definition observed :: "ms \<Rightarrow> timed_event list \<Rightarrow> proc_event list" where
  "observed cutoff evs = map snd (filter (\<lambda>(t, e). t < cutoff) evs)"

text \<open>
  The events a caller that resumed at a given time did not wait for: the listeners
  stay attached to the handle (nothing removes them), so these still reach them
  after the call returned.
\<close>

definition unobserved :: "ms \<Rightarrow> timed_event list \<Rightarrow> proc_event list" where
  "unobserved cutoff evs = map snd (filter (\<lambda>(t, e). \<not> t < cutoff) evs)"

text \<open>The reference meaning of the output buffer: each line followed by a newline.\<close>

fun line_payloads :: "proc_event list \<Rightarrow> string list" where
  "line_payloads [] = []"
| "line_payloads (Line l # es) = l # line_payloads es"
| "line_payloads (e # es) = line_payloads es"

definition joined_lines :: "string list \<Rightarrow> string" where
  "joined_lines ls = concat (map (\<lambda>l. l @ [nl]) ls)"

lemma deliver_append: "deliver ls (xs @ ys) = deliver (deliver ls xs) ys"
  by (induction xs arbitrary: ls) simp_all

lemma result_deliver:
  "result (deliver ls es) = result ls @ joined_lines (line_payloads es)"
proof (induction es arbitrary: ls)
  case (Cons e es)
  then show ?case by (cases e) (simp_all add: joined_lines_def)
qed (simp add: joined_lines_def)

lemma completed_deliver:
  "completed (deliver ls es) \<longleftrightarrow> completed ls \<or> (completed_armed ls \<and> Completed \<in> set es)"
proof (induction es arbitrary: ls)
  case (Cons e es)
  then show ?case by (cases e) auto
qed simp

lemma warnings_deliver:
  "warnings (deliver ls es) =
     warnings ls @ (if nsi_armed ls \<and> NoShellIntegration \<in> set es then [shell_warning] else [])"
proof (induction es arbitrary: ls)
  case (Cons e es)
  then show ?case by (cases e) auto
qed simp

lemma line_payloads_append [simp]:
  "line_payloads (xs @ ys) = line_payloads xs @ line_payloads ys"
  by (induction xs rule: line_payloads.induct) simp_all

lemma filter_sorted_takeWhile:
  "sorted (map fst evs) \<Longrightarrow>
   filter (\<lambda>(t, e). t < c) evs = takeWhile (\<lambda>(t, e). t < c) evs"
proof (induction evs)
  case (Cons te evs)
  obtain t e where te: "te = (t, e)" by fastforce
  show ?case
  proof (cases "t < c")
    case True
    with Cons te show ?thesis by simp
  next
    case False
    with Cons.prems te have "\<forall>x\<in>set evs. \<not> (case x of (t', e') \<Rightarrow> t' < c)"
      by auto
    with False te show ?thesis by (simp add: filter_empty_conv)
  qed
qed simp

lemma filter_sorted_dropWhile:
  "sorted (map fst evs) \<Longrightarrow>
   filter (\<lambda>(t, e). \<not> t < c) evs = dropWhile (\<lambda>(t, e). t < c) evs"
proof (induction evs)
  case (Cons te evs)
  obtain t e where te: "te = (t, e)" by fastforce
  show ?case
  proof (cases "t < c")
    case True
    with Cons te show ?thesis by simp
  next
    case False
    with Cons.prems te have "\<forall>x\<in>set evs. \<not> (case x of (t', e') \<Rightarrow> t' < c)"
      by auto
    with False te show ?thesis by (auto intro: filter_True)
  qed
qed simp

lemma observed_unobserved:
  "sorted (map fst evs) \<Longrightarrow> observed c evs @ unobserved c evs = map snd evs"
  by (simp add: observed_def unobserved_def filter_sorted_takeWhile filter_sorted_dropWhile
      map_append [symmetric] del: map_append)

lemma nsi_armed_deliver:
  "nsi_armed (deliver ls es) \<longleftrightarrow> nsi_armed ls \<and> NoShellIntegration \<notin> set es"
proof (induction es arbitrary: ls)
  case (Cons e es)
  then show ?case by (cases e) auto
qed simp

lemma observed_prefix_of_stream:
  "sorted (map fst evs) \<Longrightarrow> prefix (observed c evs) (map snd evs)"
  by (simp add: observed_def filter_sorted_takeWhile takeWhile_is_prefix map_mono_prefix)

lemma takeWhile_weaker_prefix:
  "(\<And>x. P x \<Longrightarrow> Q x) \<Longrightarrow> prefix (takeWhile P xs) (takeWhile Q xs)"
  by (induction xs) auto

lemma observed_mono:
  assumes "sorted (map fst evs)" "c1 \<le> c2"
  shows "prefix (observed c1 evs) (observed c2 evs)"
proof -
  have "prefix (takeWhile (\<lambda>(t, e). t < c1) evs) (takeWhile (\<lambda>(t, e). t < c2) evs)"
    using assms(2) by (intro takeWhile_weaker_prefix) auto
  then show ?thesis
    using assms(1) by (simp add: observed_def filter_sorted_takeWhile map_mono_prefix)
qed

lemma after_completed_ok_last:
  "after_completed_ok es \<Longrightarrow> Completed \<in> set es \<Longrightarrow> last es = Completed"
  by (induction es rule: after_completed_ok.induct) auto

lemma sorted_le_last: "sorted xs \<Longrightarrow> x \<in> set xs \<Longrightarrow> x \<le> last xs"
proof (induction xs rule: rev_induct)
  case (snoc y ys)
  then show ?case by (auto simp: sorted_append)
qed simp

lemma wf_run_completed_before_finish:
  assumes "wf_run p" "Completed \<in> set (map snd (events p))" "finish p = Some f"
  shows "\<forall>x\<in>set (events p). fst x \<le> f"
proof
  fix x assume x: "x \<in> set (events p)"
  have ne: "events p \<noteq> []" using assms(2) by auto
  have "last (map snd (events p)) = Completed"
    using assms(1,2) by (simp add: wf_run_def after_completed_ok_last)
  then have lc: "snd (last (events p)) = Completed"
    using ne by (simp add: last_map)
  have "last (events p) \<in> set (events p)" using ne by simp
  moreover have "last (events p) = (fst (last (events p)), Completed)"
    using lc by (metis prod.collapse)
  ultimately have "fst (last (events p)) \<le> f"
    using assms(1,3) unfolding wf_run_def list_all_iff by fastforce
  moreover have "fst x \<le> last (map fst (events p))"
    using assms(1) x by (intro sorted_le_last) (auto simp: wf_run_def)
  ultimately show "fst x \<le> f" using ne by (simp add: last_map)
qed

lemma observed_all:
  "\<forall>x\<in>set evs. fst x < c \<Longrightarrow> observed c evs = map snd evs"
  by (simp add: observed_def split_def)

lemma wf_run_no_finish_no_completed:
  "wf_run p \<Longrightarrow> finish p = None \<Longrightarrow> Completed \<notin> set (map snd (events p))"
  by (auto simp: wf_run_def list_all_iff)

lemma observed_subset: "set (observed c evs) \<subseteq> set (map snd evs)"
  by (auto simp: observed_def)

lemma joined_lines_append [simp]:
  "joined_lines (xs @ ys) = joined_lines xs @ joined_lines ys"
  by (simp add: joined_lines_def)

lemma prefix_result_deliver:
  "prefix es1 es2 \<Longrightarrow>
   prefix (result (deliver listeners0 es1)) (result (deliver listeners0 es2))"
  by (auto simp: prefix_def result_deliver listeners0_def)

text \<open>
  C8: the warning about missing shell integration is shown at most once per
  command, however many \<open>no_shell_integration\<close> events the handle emits, and it is
  shown exactly when one was emitted.
\<close>

theorem warning_shown_once:
  "length (warnings (deliver listeners0 es)) = (if NoShellIntegration \<in> set es then 1 else 0)"
  by (simp add: warnings_deliver listeners0_def)

text \<open>
  C9: output is never reordered or lost between polls: for a time-ordered stream, the
  output buffer as it stands at an earlier moment is a prefix of the buffer at any
  later moment.
\<close>

theorem output_prefix_over_time:
  assumes "sorted (map fst evs)" "c1 \<le> c2"
  shows "prefix (result (deliver listeners0 (observed c1 evs)))
                (result (deliver listeners0 (observed c2 evs)))"
  using observed_mono [OF assms] by (rule prefix_result_deliver)

theorem output_prefix_over_time_witness:
  "sorted (map fst [(1::nat, Line ''a''), (5, Line ''b'')]) \<and> (2::nat) \<le> 6 \<and>
   prefix (result (deliver listeners0 (observed 2 [(1, Line ''a''), (5, Line ''b'')])))
          (result (deliver listeners0 (observed 6 [(1, Line ''a''), (5, Line ''b'')])))"
proof -
  have a: "sorted (map fst [(1::nat, Line ''a''), (5, Line ''b'')])" by simp
  have b: "(2::nat) \<le> 6" by simp
  show ?thesis using a b output_prefix_over_time [OF a b] by simp
qed

end
