(* ===== verification/Confirm.thy ===== *)
theory Confirm
  imports Prelude
begin

text \<open>
  The confirmation gate of \<open>ExecuteCommandTool.execute\<close>
  (\<open>src/packages/extension/src/tools/execute_command.ts\<close>, lines 48--71 and
  141--143): the decision whether to ask (\<open>shouldConfirm\<close>), the prompt that
  \<open>ask\<close> hands to \<open>ConfirmationUI.confirm\<close>, and the text of the reply on denial.
  \<open>ConfirmationUI\<close> is not part of the sources; what the prompt resolves to is a
  string of the world: \<open>Approve\<close>, \<open>Deny\<close> or the feedback the user typed, as in
  section 4.3 of the specification.
\<close>

definition should_confirm :: "bool \<Rightarrow> bool \<Rightarrow> bool" where
  "should_confirm modify confirm_non_destructive \<longleftrightarrow> modify \<or> confirm_non_destructive"

record prompt =
  p_title :: string
  p_detail :: string
  p_approve_label :: string
  p_deny_label :: string

definition ask_prompt :: "string \<Rightarrow> prompt" where
  "ask_prompt cmd =
     \<lparr>p_title = ''Execute Command?'', p_detail = cmd,
      p_approve_label = ''Execute Command'', p_deny_label = ''Deny''\<rparr>"

definition approved :: "string \<Rightarrow> bool" where
  "approved reply \<longleftrightarrow> reply = ''Approve''"

definition denial_text :: "string \<Rightarrow> string" where
  "denial_text reply =
     ''Command execution was denied by the user. '' @
     (if reply \<noteq> ''Deny'' then ''Feedback: '' @ reply else [])"

end
