(* ===== verification/Orchestrator.thy ===== *)
theory Orchestrator
  imports Registry Process Confirm
begin

text \<open>
  \<open>ExecuteCommandTool.execute\<close>
  (\<open>src/packages/extension/src/tools/execute_command.ts\<close>, lines 41--139), the
  coordinator of the subsystem. Its effects on the editor are explicit in a
  \<open>world\<close> record: the setting it reads, what the confirmation prompt resolves to,
  the terminal registry, the prompts shown, the console log, the terminals shown, the
  commands started, the warnings shown, and a clock in milliseconds. The process it
  starts is a \<open>proc_run\<close> of theory \<open>Process\<close>, with times relative to the start.
  The definitions follow the blocks of the source: \<open>gate\<close> (lines 48--71),
  \<open>start_command\<close> (73--75), the background return (91--101), the race of the
  process against the timer and the grace delay (103--118), and \<open>final_reply\<close>
  (120--138); \<open>execute\<close> composes them.
\<close>

record world =
  confirm_nd :: bool
  user_reply :: string
  reg :: registry
  prompts :: "prompt list"
  logs :: "string list"
  shown :: "term_id list"
  started :: "(term_id \<times> string) list"
  warns :: "string list"
  clock :: ms

record tool_response =
  resp_text :: string

definition tool_result :: "string \<Rightarrow> tool_response" where
  "tool_result s = \<lparr>resp_text = s\<rparr>"

type_synonym exec_result = "bool \<times> tool_response"

definition gate :: "string \<Rightarrow> bool \<Rightarrow> world \<Rightarrow> (exec_result \<times> world) + world" where
  "gate cmd modify w =
     (if should_confirm modify (confirm_nd w)
      then (let w' = w\<lparr>prompts := prompts w @ [ask_prompt cmd]\<rparr>
            in if \<not> approved (user_reply w)
               then Inl ((False, tool_result (denial_text (user_reply w))), w')
               else Inr w')
      else Inr (w\<lparr>logs := logs w @ [''Executing read-only command without confirmation: '' @ cmd]\<rparr>))"

definition effective_cwd :: "string \<Rightarrow> string option \<Rightarrow> string" where
  "effective_cwd cwd custom =
     (case custom of None \<Rightarrow> cwd | Some c \<Rightarrow> if js_truthy c then c else cwd)"

definition start_command ::
  "string \<Rightarrow> string option \<Rightarrow> string \<Rightarrow> world \<Rightarrow> terminal_info \<times> world" where
  "start_command cwd custom cmd w =
     (let (t, r') = get_or_create (effective_cwd cwd custom) (reg w)
      in (t, w\<lparr>reg := r', shown := shown w @ [tid t], started := started w @ [(tid t, cmd)]\<rparr>))"

definition background_text :: "term_id \<Rightarrow> string" where
  "background_text i =
     ''Command started in background mode and is running in the terminal (id: '' @ nat_str i @
     ''). '' @
     ''You can check the output later using the get_terminal_output tool with this terminal id.''"

text \<open>
  The timer of line 104 is \<open>setTimeout(resolve, timeout)\<close>; the host (Node.js) runs
  a delay below 1 or above \<open>2^31 - 1\<close> milliseconds after 1 millisecond instead.
\<close>

definition timer_delay :: "int \<Rightarrow> ms" where
  "timer_delay t = (if 1 \<le> t \<and> t \<le> 2147483647 then nat t else 1)"

definition race_settles :: "ms \<Rightarrow> ms option \<Rightarrow> ms" where
  "race_settles d fin = (case fin of None \<Rightarrow> d | Some f \<Rightarrow> min f d)"

definition grace_ms :: ms where
  "grace_ms = 50"

definition resume_time :: "int \<Rightarrow> proc_run \<Rightarrow> ms" where
  "resume_time tmo p = race_settles (timer_delay tmo) (finish p) + grace_ms"

definition executed_text :: "term_id \<Rightarrow> string \<Rightarrow> string" where
  "executed_text i out =
     ''Command executed in terminal (id: '' @ nat_str i @ '').'' @
     (if js_truthy out then [nl] @ ''Output:'' @ [nl] @ out else [])"

definition timeout_message :: "int \<Rightarrow> string" where
  "timeout_message t = (if t \<noteq> default_timeout then '' (timeout: '' @ int_str t @ ''ms)'' else [])"

definition running_text :: "term_id \<Rightarrow> int \<Rightarrow> string \<Rightarrow> string" where
  "running_text i t out =
     ''Command is still running in terminal (id: '' @ nat_str i @ '')'' @ timeout_message t @ ''.'' @
     (if js_truthy out then [nl] @ ''Here's the output so far:'' @ [nl] @ out else []) @
     [nl, nl] @
     ''You can check for more output later using the get_terminal_output tool with this terminal id.''"

definition final_reply :: "term_id \<Rightarrow> int \<Rightarrow> listeners \<Rightarrow> exec_result" where
  "final_reply i t ls =
     (let out = js_trim (result ls)
      in if completed ls then (False, tool_result (executed_text i out))
         else (False, tool_result (running_text i t out)))"

definition execute ::
  "string \<Rightarrow> string \<Rightarrow> string option \<Rightarrow> bool \<Rightarrow> bool \<Rightarrow> int \<Rightarrow> proc_run \<Rightarrow> world
   \<Rightarrow> exec_result \<times> world" where
  "execute cwd cmd custom modify bg tmo p w =
     (case gate cmd modify w of
        Inl rw \<Rightarrow> rw
      | Inr w1 \<Rightarrow>
          (let (t, w2) = start_command cwd custom cmd w1
           in if bg then ((False, tool_result (background_text (tid t))), w2)
              else (let te = resume_time tmo p;
                        ls = deliver listeners0 (observed te (events p))
                    in (final_reply (tid t) tmo ls,
                        w2\<lparr>warns := warns w2 @ warnings ls, clock := clock w2 + te\<rparr>))))"

definition gate_passes :: "bool \<Rightarrow> world \<Rightarrow> bool" where
  "gate_passes modify w \<longleftrightarrow> (should_confirm modify (confirm_nd w) \<longrightarrow> approved (user_reply w))"

definition acquired :: "string \<Rightarrow> string option \<Rightarrow> world \<Rightarrow> terminal_info" where
  "acquired cwd custom w = fst (get_or_create (effective_cwd cwd custom) (reg w))"

text \<open>
  The three listeners of lines 77--89 are attached before the background check and
  never removed. When the call returns they have received the events stamped before
  the return (none in background mode, which returns before the handle emits
  anything); the rest still reach them afterwards.
\<close>

definition return_time :: "bool \<Rightarrow> int \<Rightarrow> proc_run \<Rightarrow> ms" where
  "return_time bg tmo p = (if bg then 0 else resume_time tmo p)"

definition listeners_at_return :: "bool \<Rightarrow> int \<Rightarrow> proc_run \<Rightarrow> listeners" where
  "listeners_at_return bg tmo p = deliver listeners0 (observed (return_time bg tmo p) (events p))"

definition late_events :: "bool \<Rightarrow> int \<Rightarrow> proc_run \<Rightarrow> proc_event list" where
  "late_events bg tmo p = unobserved (return_time bg tmo p) (events p)"

lemma gate_denied:
  "should_confirm modify (confirm_nd w) \<Longrightarrow> \<not> approved (user_reply w) \<Longrightarrow>
   gate cmd modify w =
     Inl ((False, tool_result (denial_text (user_reply w))),
          w\<lparr>prompts := prompts w @ [ask_prompt cmd]\<rparr>)"
  by (simp add: gate_def)

lemma gate_Inl_iff: "(\<exists>rw. gate cmd modify w = Inl rw) \<longleftrightarrow> \<not> gate_passes modify w"
  by (auto simp: gate_def gate_passes_def Let_def)

lemma gate_Inr:
  assumes "gate cmd modify w = Inr w1"
  shows "reg w1 = reg w \<and> warns w1 = warns w \<and> clock w1 = clock w \<and>
         started w1 = started w \<and> shown w1 = shown w \<and>
         prompts w1 = prompts w @ (if should_confirm modify (confirm_nd w) then [ask_prompt cmd] else [])"
  using assms by (auto simp: gate_def Let_def split: if_splits)

lemma gate_passes_Inr: "gate_passes modify w \<Longrightarrow> \<exists>w1. gate cmd modify w = Inr w1"
  using gate_Inl_iff [of cmd modify w] by (cases "gate cmd modify w") auto

lemma start_command_eq:
  "start_command cwd custom cmd w =
     (fst (get_or_create (effective_cwd cwd custom) (reg w)),
      w\<lparr>reg := snd (get_or_create (effective_cwd cwd custom) (reg w)),
        shown := shown w @ [tid (fst (get_or_create (effective_cwd cwd custom) (reg w)))],
        started := started w @ [(tid (fst (get_or_create (effective_cwd cwd custom) (reg w))), cmd)]\<rparr>)"
  by (simp add: start_command_def split: prod.splits)

lemma execute_Inr:
  assumes "gate cmd modify w = Inr w1"
  shows "execute cwd cmd custom modify bg tmo p w =
    (let t = acquired cwd custom w1;
         w2 = snd (start_command cwd custom cmd w1)
     in if bg then ((False, tool_result (background_text (tid t))), w2)
        else (let te = resume_time tmo p;
                  ls = deliver listeners0 (observed te (events p))
              in (final_reply (tid t) tmo ls,
                  w2\<lparr>warns := warns w2 @ warnings ls, clock := clock w2 + te\<rparr>)))"
  using assms by (simp add: execute_def start_command_eq acquired_def Let_def)

lemma execute_fst_False: "fst (fst (execute cwd cmd custom modify bg tmo p w)) = False"
  by (auto simp: execute_def gate_def final_reply_def Let_def split: sum.splits prod.splits if_splits)

lemma listeners0_simps [simp]:
  "result listeners0 = []" "completed listeners0 = False" "completed_armed listeners0"
  "nsi_armed listeners0" "warnings listeners0 = []"
  by (simp_all add: listeners0_def)

text \<open>
  How a client reads the terminal identifier out of a reply (to pass it to
  \<open>get_terminal_output\<close> later): the digits after the first \<open>(id: \<close>, up to the
  closing parenthesis.
\<close>

fun find_id :: "string \<Rightarrow> term_id option" where
  "find_id [] = None"
| "find_id (c # cs) =
     (if prefix ''(id: '' (c # cs)
      then read_nat (takeWhile (\<lambda>x. x \<noteq> CHR '')'') (drop 5 (c # cs)))
      else find_id cs)"

lemmas acquire_eval = acquired_def effective_cwd_def get_or_create_def find_live_def
  empty_registry_def Let_def

lemma acquired_gate:
  "gate cmd modify w = Inr w1 \<Longrightarrow> acquired cwd custom w1 = acquired cwd custom w"
  using gate_Inr by (simp add: acquired_def)

lemma final_reply_completed:
  "completed ls \<Longrightarrow> final_reply i t ls = (False, tool_result (executed_text i (js_trim (result ls))))"
  by (simp add: final_reply_def)

lemma final_reply_running:
  "\<not> completed ls \<Longrightarrow> final_reply i t ls = (False, tool_result (running_text i t (js_trim (result ls))))"
  by (simp add: final_reply_def)

lemma deliver_listeners0:
  "result (deliver listeners0 es) = joined_lines (line_payloads es)"
  "completed (deliver listeners0 es) \<longleftrightarrow> Completed \<in> set es"
  by (simp_all add: result_deliver completed_deliver)

lemma execute_foreground:
  assumes "gate_passes modify w" "\<not> bg"
  shows "fst (execute cwd cmd custom modify bg tmo p w) =
      final_reply (tid (acquired cwd custom w)) tmo
        (deliver listeners0 (observed (resume_time tmo p) (events p))) \<and>
    clock (snd (execute cwd cmd custom modify bg tmo p w)) = clock w + resume_time tmo p"
proof -
  obtain w1 where g: "gate cmd modify w = Inr w1"
    using gate_passes_Inr [OF assms(1)] by blast
  show ?thesis
    using assms(2) g gate_Inr [OF g]
    by (simp add: execute_Inr acquired_gate start_command_eq Let_def)
qed

lemma execute_warns:
  assumes "gate_passes modify w"
  shows "warns (snd (execute cwd cmd custom modify bg tmo p w)) =
    warns w @ warnings (listeners_at_return bg tmo p)"
proof -
  obtain w1 where g: "gate cmd modify w = Inr w1"
    using gate_passes_Inr [OF assms] by blast
  have "observed 0 (events p) = []" by (simp add: observed_def)
  then show ?thesis
    using g gate_Inr [OF g]
    by (simp add: execute_Inr start_command_eq listeners_at_return_def return_time_def Let_def)
qed

lemma warnings_listeners0:
  "warnings (deliver listeners0 es) = (if NoShellIntegration \<in> set es then [shell_warning] else [])"
  by (simp add: warnings_deliver)

lemma execute_started_reg:
  assumes "gate_passes modify w"
  shows "started (snd (execute cwd cmd custom modify bg tmo p w)) =
      started w @ [(tid (acquired cwd custom w), cmd)] \<and>
    reg (snd (execute cwd cmd custom modify bg tmo p w)) =
      snd (get_or_create (effective_cwd cwd custom) (reg w)) \<and>
    confirm_nd (snd (execute cwd cmd custom modify bg tmo p w)) = confirm_nd w \<and>
    user_reply (snd (execute cwd cmd custom modify bg tmo p w)) = user_reply w"
proof -
  obtain w1 where g: "gate cmd modify w = Inr w1"
    using gate_passes_Inr [OF assms] by blast
  have "confirm_nd w1 = confirm_nd w \<and> user_reply w1 = user_reply w"
    using g by (auto simp: gate_def Let_def split: if_splits)
  then show ?thesis
    using g gate_Inr [OF g]
    by (simp add: execute_Inr acquired_gate start_command_eq acquired_def Let_def)
qed

text \<open>
  C1: confirmation is requested (the prompt \<open>Execute Command?\<close> with the command is
  shown) exactly when the command is flagged as modifying or the setting
  \<open>confirmNonDestructiveCommands\<close> is on, and at most once per call.
\<close>

theorem execute_confirmation_gate:
  "prompts (snd (execute cwd cmd custom modify bg tmo p w)) =
   prompts w @ (if modify \<or> confirm_nd w then [ask_prompt cmd] else [])"
proof (cases "gate cmd modify w")
  case (Inl rw)
  then have "should_confirm modify (confirm_nd w) \<and> \<not> approved (user_reply w)"
    using gate_Inl_iff [of cmd modify w] by (auto simp: gate_passes_def)
  then show ?thesis by (auto simp: execute_def gate_denied should_confirm_def)
next
  case (Inr w1)
  then show ?thesis
    using gate_Inr [OF Inr]
    by (simp add: execute_Inr start_command_eq should_confirm_def Let_def)
qed

text \<open>
  C2: when confirmation is required and the reply is anything but \<open>Approve\<close>, the
  call returns at once a non-rejecting result whose text reports the denial (with the
  reply as feedback unless it is \<open>Deny\<close>); no terminal is acquired or shown and no
  command is started.
\<close>

theorem execute_denied:
  assumes "should_confirm modify (confirm_nd w)" "\<not> approved (user_reply w)"
  shows "execute cwd cmd custom modify bg tmo p w =
    ((False, tool_result (''Command execution was denied by the user. '' @
        (if user_reply w \<noteq> ''Deny'' then ''Feedback: '' @ user_reply w else []))),
     w\<lparr>prompts := prompts w @ [ask_prompt cmd]\<rparr>)"
  using assms by (simp add: execute_def gate_denied denial_text_def)

theorem execute_denied_witness:
  "should_confirm True False \<and> \<not> approved ''too risky'' \<and>
   resp_text (snd (fst (execute ''/ws'' ''rm -rf tmp'' None True False 300000
     \<lparr>events = [], finish = None\<rparr>
     \<lparr>confirm_nd = False, user_reply = ''too risky'', reg = empty_registry, prompts = [],
      logs = [], shown = [], started = [], warns = [], clock = 0\<rparr>))) =
   ''Command execution was denied by the user. Feedback: too risky''"
proof -
  have a: "should_confirm True False" "\<not> approved ''too risky''"
    by (simp_all add: should_confirm_def approved_def)
  show ?thesis
    using execute_denied [of True "\<lparr>confirm_nd = False, user_reply = ''too risky'',
        reg = empty_registry, prompts = [], logs = [], shown = [], started = [], warns = [],
        clock = 0\<rparr>" "''/ws''" "''rm -rf tmp''" None False 300000 "\<lparr>events = [], finish = None\<rparr>"]
    by (simp add: a tool_result_def)
qed

text \<open>
  C3: a command whose handle resolves within the timeout, with the completion
  reported by the shell, yields the reply "executed in terminal" with the id of the
  terminal acquired for the effective directory and, as output, every line of the
  stream in order, each once, joined by newlines and trimmed.
\<close>

theorem execute_completed_output:
  assumes "gate_passes modify w" "\<not> bg" "wf_run p" "finish p = Some f"
    "f \<le> timer_delay tmo" "Completed \<in> set (map snd (events p))"
  shows "fst (execute cwd cmd custom modify bg tmo p w) =
    (False, tool_result (executed_text (tid (acquired cwd custom w))
       (js_trim (joined_lines (line_payloads (map snd (events p)))))))"
proof -
  obtain w1 where g: "gate cmd modify w = Inr w1"
    using gate_passes_Inr [OF assms(1)] by blast
  have rt: "resume_time tmo p = f + grace_ms"
    using assms(4,5) by (simp add: resume_time_def race_settles_def)
  have "\<forall>x\<in>set (events p). fst x < f + grace_ms"
    using wf_run_completed_before_finish [OF assms(3,6,4)] by (auto simp: grace_ms_def)
  then have obs: "observed (resume_time tmo p) (events p) = map snd (events p)"
    by (simp add: rt observed_all)
  show ?thesis
    using assms(2,6) g
    by (simp add: execute_Inr acquired_gate obs deliver_listeners0 final_reply_completed Let_def)
qed

theorem execute_completed_output_witness:
  "gate_passes False
     \<lparr>confirm_nd = False, user_reply = [], reg = empty_registry, prompts = [],
      logs = [], shown = [], started = [], warns = [], clock = 0\<rparr> \<and>
   wf_run \<lparr>events = [(1, Line ''hi''), (2, Completed)], finish = Some 3\<rparr> \<and>
   3 \<le> timer_delay 300000 \<and>
   resp_text (snd (fst (execute ''/ws'' ''echo hi'' None False False 300000
     \<lparr>events = [(1, Line ''hi''), (2, Completed)], finish = Some 3\<rparr>
     \<lparr>confirm_nd = False, user_reply = [], reg = empty_registry, prompts = [],
      logs = [], shown = [], started = [], warns = [], clock = 0\<rparr>))) =
   ''Command executed in terminal (id: 1).'' @ [nl] @ ''Output:'' @ [nl] @ ''hi''"
proof -
  let ?W = "\<lparr>confirm_nd = False, user_reply = [], reg = empty_registry, prompts = [],
      logs = [], shown = [], started = [], warns = [], clock = 0\<rparr>"
  let ?P = "\<lparr>events = [(1, Line ''hi''), (2, Completed)], finish = Some (3::nat)\<rparr>"
  have a: "gate_passes False ?W" by (simp add: gate_passes_def should_confirm_def)
  have b: "wf_run ?P" by (simp add: wf_run_def)
  have c: "3 \<le> timer_delay 300000" by (simp add: timer_delay_def)
  have e: "fst (execute ''/ws'' ''echo hi'' None False False 300000 ?P ?W) =
    (False, tool_result (executed_text (tid (acquired ''/ws'' None ?W))
       (js_trim (joined_lines (line_payloads (map snd (events ?P)))))))"
    by (rule execute_completed_output [OF a _ b _ c]) simp_all
  have t: "tid (acquired ''/ws'' None ?W) = 1"
    by (simp add: acquire_eval)
  have o: "js_trim (joined_lines (line_payloads (map snd (events ?P)))) = ''hi''"
    by (simp add: joined_lines_def js_trim_def is_js_space_def nl_def)
  have r: "resp_text (snd (fst (execute ''/ws'' ''echo hi'' None False False 300000 ?P ?W))) =
      executed_text 1 ''hi''"
    unfolding e t o by (simp add: tool_result_def)
  show ?thesis
    by (simp only: r a b c) code_simp
qed

text \<open>
  C4: a command whose handle never resolves (a server, a pager) is reported, when the
  timer has fired and the grace delay has passed, as still running in the acquired
  terminal, with the timeout in the text unless it is the default, and with the lines
  received up to then; the call returns exactly the timer delay plus the grace delay
  after it started.
\<close>

theorem execute_still_running:
  assumes "gate_passes modify w" "\<not> bg" "wf_run p" "finish p = None"
  shows "fst (execute cwd cmd custom modify bg tmo p w) =
      (False, tool_result (running_text (tid (acquired cwd custom w)) tmo
         (js_trim (joined_lines (line_payloads (observed (timer_delay tmo + grace_ms) (events p)))))))
    \<and> clock (snd (execute cwd cmd custom modify bg tmo p w)) = clock w + timer_delay tmo + grace_ms"
proof -
  obtain w1 where g: "gate cmd modify w = Inr w1"
    using gate_passes_Inr [OF assms(1)] by blast
  have rt: "resume_time tmo p = timer_delay tmo + grace_ms"
    using assms(4) by (simp add: resume_time_def race_settles_def)
  have "Completed \<notin> set (observed (resume_time tmo p) (events p))"
    using wf_run_no_finish_no_completed [OF assms(3,4)] observed_subset by blast
  then show ?thesis
    using assms(2) g gate_Inr [OF g]
    by (simp add: execute_Inr acquired_gate rt deliver_listeners0 final_reply_running
        start_command_eq Let_def)
qed

theorem execute_still_running_witness:
  "gate_passes True
     \<lparr>confirm_nd = False, user_reply = ''Approve'', reg = empty_registry, prompts = [],
      logs = [], shown = [], started = [], warns = [], clock = 0\<rparr> \<and>
   wf_run \<lparr>events = [(10, Line ''listening'')], finish = None\<rparr> \<and>
   clock (snd (execute ''/ws'' ''npm start'' None True False 1000
     \<lparr>events = [(10, Line ''listening'')], finish = None\<rparr>
     \<lparr>confirm_nd = False, user_reply = ''Approve'', reg = empty_registry, prompts = [],
      logs = [], shown = [], started = [], warns = [], clock = 0\<rparr>)) = 1050"
proof -
  have a: "gate_passes True
     \<lparr>confirm_nd = False, user_reply = ''Approve'', reg = empty_registry, prompts = [],
      logs = [], shown = [], started = [], warns = [], clock = 0\<rparr>"
    by (simp add: gate_passes_def should_confirm_def approved_def)
  have b: "wf_run \<lparr>events = [(10, Line ''listening'')], finish = None\<rparr>"
    by (simp add: wf_run_def)
  show ?thesis
    using execute_still_running [OF a _ b, of False "''/ws''" "''npm start''" None 1000]
    by (simp add: a b timer_delay_def grace_ms_def)
qed

text \<open>
  C5: in background mode the call returns without waiting: no time passes, no event
  of the process has been received, the command has been started in the acquired
  terminal, and the reply names that terminal.
\<close>

theorem execute_background:
  assumes "gate_passes modify w" "bg"
  shows "fst (execute cwd cmd custom modify bg tmo p w) =
      (False, tool_result (background_text (tid (acquired cwd custom w)))) \<and>
    clock (snd (execute cwd cmd custom modify bg tmo p w)) = clock w \<and>
    warns (snd (execute cwd cmd custom modify bg tmo p w)) = warns w \<and>
    started (snd (execute cwd cmd custom modify bg tmo p w)) =
      started w @ [(tid (acquired cwd custom w), cmd)]"
proof -
  obtain w1 where g: "gate cmd modify w = Inr w1"
    using gate_passes_Inr [OF assms(1)] by blast
  show ?thesis
    using assms(2) g gate_Inr [OF g]
    by (simp add: execute_Inr acquired_gate start_command_eq acquired_def Let_def)
qed

theorem execute_background_witness:
  "gate_passes True
     \<lparr>confirm_nd = False, user_reply = ''Approve'', reg = empty_registry, prompts = [],
      logs = [], shown = [], started = [], warns = [], clock = 7\<rparr> \<and>
   clock (snd (execute ''/ws'' ''sleep 600'' None True True 300000
     \<lparr>events = [], finish = None\<rparr>
     \<lparr>confirm_nd = False, user_reply = ''Approve'', reg = empty_registry, prompts = [],
      logs = [], shown = [], started = [], warns = [], clock = 7\<rparr>)) = 7"
proof -
  have a: "gate_passes True
     \<lparr>confirm_nd = False, user_reply = ''Approve'', reg = empty_registry, prompts = [],
      logs = [], shown = [], started = [], warns = [], clock = 7\<rparr>"
    by (simp add: gate_passes_def should_confirm_def approved_def)
  show ?thesis
    using execute_background [OF a, of True "''/ws''" "''sleep 600''" None 300000
        "\<lparr>events = [], finish = None\<rparr>"]
    by (simp add: a)
qed

lemma takeWhile_nat_str:
  "takeWhile (\<lambda>x. x \<noteq> CHR '')'') (nat_str i @ CHR '')'' # rest) = nat_str i"
proof -
  have "digit_val (CHR '')'') = None" by (simp add: digit_val_def)
  then have "\<forall>c\<in>set (nat_str i). c \<noteq> CHR '')''"
    using nat_str_digits [of _ i] by fastforce
  then show ?thesis by (simp add: takeWhile_append2)
qed

text \<open>
  C17: every reply that reports a started command names its terminal so that a
  client reads the identifier back exactly, whatever the command printed: the
  background reply, the completed reply and the still-running reply.
\<close>

theorem reply_terminal_id_roundtrip:
  "find_id (background_text i) = Some i \<and>
   find_id (executed_text i out) = Some i \<and>
   find_id (running_text i t out) = Some i"
  by (simp add: background_text_def executed_text_def running_text_def takeWhile_nat_str)


text \<open>
  C18: a timeout above \<open>2^31 - 1\<close> ms does not make the tool wait longer: the host
  runs such a timer after 1 ms, so a command that has not finished is reported as
  still running 51 ms after it started, with the output of that first instant.
\<close>

theorem execute_huge_timeout_returns_early:
  assumes "gate_passes modify w" "\<not> bg" "finish p = None" "2147483647 < tmo"
  shows "clock (snd (execute cwd cmd custom modify bg tmo p w)) = clock w + 51 \<and>
    fst (execute cwd cmd custom modify bg tmo p w) =
      final_reply (tid (acquired cwd custom w)) tmo
        (deliver listeners0 (observed 51 (events p)))"
proof -
  have "resume_time tmo p = 51"
    using assms(3,4) by (simp add: resume_time_def race_settles_def timer_delay_def grace_ms_def)
  then show ?thesis
    using execute_foreground [OF assms(1,2)] by simp
qed

theorem execute_huge_timeout_returns_early_witness:
  "gate_passes False
     \<lparr>confirm_nd = False, user_reply = [], reg = empty_registry, prompts = [],
      logs = [], shown = [], started = [], warns = [], clock = 0\<rparr> \<and>
   (2147483647::int) < 3000000000 \<and>
   clock (snd (execute ''/ws'' ''npm start'' None False False 3000000000
     \<lparr>events = [], finish = None\<rparr>
     \<lparr>confirm_nd = False, user_reply = [], reg = empty_registry, prompts = [],
      logs = [], shown = [], started = [], warns = [], clock = 0\<rparr>)) = 51"
proof -
  let ?W = "\<lparr>confirm_nd = False, user_reply = [], reg = empty_registry, prompts = [],
      logs = [], shown = [], started = [], warns = [], clock = 0\<rparr>"
  have a: "gate_passes False ?W" by (simp add: gate_passes_def should_confirm_def)
  have b: "(2147483647::int) < 3000000000" by simp
  show ?thesis
    using execute_huge_timeout_returns_early [OF a _ _ b, of False "\<lparr>events = [], finish = None\<rparr>"
        "''/ws''" "''npm start''" None] a b
    by simp
qed

text \<open>
  C19: an empty custom working directory is ignored (\<open>customCwd || this.cwd\<close>):
  the call behaves in every respect as if no custom directory had been given.
\<close>

theorem execute_empty_custom_cwd:
  "execute cwd cmd (Some []) modify bg tmo p w = execute cwd cmd None modify bg tmo p w"
proof -
  have "effective_cwd cwd (Some []) = effective_cwd cwd None"
    by (simp add: effective_cwd_def)
  then have sc: "start_command cwd (Some []) cmd = start_command cwd None cmd"
    by (simp add: fun_eq_iff start_command_def)
  show ?thesis unfolding execute_def sc ..
qed

text \<open>
  C28: the shell-integration advisory is shown exactly once over the life of a call
  that runs, when the stream reports the missing capability, and never otherwise:
  before the reply or after it (the listener is \<open>once\<close> and stays attached), in
  background mode as well.
\<close>

theorem shell_warning_once_per_call:
  assumes "gate_passes modify w" "sorted (map fst (events p))"
  shows "warns (snd (execute cwd cmd custom modify bg tmo p w)) @
      warnings (deliver ((listeners_at_return bg tmo p)\<lparr>warnings := []\<rparr>) (late_events bg tmo p)) =
    warns w @ (if NoShellIntegration \<in> snd ` set (events p) then [shell_warning] else [])"
proof -
  let ?o = "observed (return_time bg tmo p) (events p)"
  let ?u = "late_events bg tmo p"
  have app: "?o @ ?u = map snd (events p)"
    using observed_unobserved [OF assms(2), of "return_time bg tmo p"]
    by (simp add: late_events_def)
  have split: "set ?o \<union> set ?u = snd ` set (events p)"
    using arg_cong [OF app, of set] by simp
  show ?thesis
    using split
    by (auto simp: execute_warns [OF assms(1)] warnings_deliver nsi_armed_deliver
        listeners_at_return_def warnings_listeners0)
qed

theorem shell_warning_once_per_call_witness:
  "gate_passes False \<lparr>confirm_nd = False, user_reply = [], reg = empty_registry, prompts = [],
      logs = [], shown = [], started = [], warns = [], clock = 0\<rparr> \<and>
   sorted (map fst (events \<lparr>events = [(3, NoShellIntegration)], finish = None\<rparr>)) \<and>
   warns (snd (execute ''/ws'' ''make'' None False True 300000
      \<lparr>events = [(3, NoShellIntegration)], finish = None\<rparr>
      \<lparr>confirm_nd = False, user_reply = [], reg = empty_registry, prompts = [],
       logs = [], shown = [], started = [], warns = [], clock = 0\<rparr>)) @
   warnings (deliver ((listeners_at_return True 300000
      \<lparr>events = [(3, NoShellIntegration)], finish = None\<rparr>)\<lparr>warnings := []\<rparr>)
      (late_events True 300000 \<lparr>events = [(3, NoShellIntegration)], finish = None\<rparr>)) =
   [shell_warning]"
proof -
  let ?w = "\<lparr>confirm_nd = False, user_reply = [], reg = empty_registry, prompts = [],
      logs = [], shown = [], started = [], warns = [], clock = 0\<rparr>"
  let ?p = "\<lparr>events = [(3::nat, NoShellIntegration)], finish = None\<rparr>"
  have g: "gate_passes False ?w" by (simp add: gate_passes_def should_confirm_def)
  have s: "sorted (map fst (events ?p))" by simp
  show ?thesis
    using g s shell_warning_once_per_call [OF g s, of "''/ws''" "''make''" None True 300000]
    by simp
qed

end
