(* ===== verification/Request.thy ===== *)
theory Request
  imports Prelude
begin

text \<open>
  The argument schema of the tool, \<open>executeCommandSchema\<close>
  (\<open>src/packages/extension/src/tools/execute_command.ts\<close>, lines 8--30): a JSON
  object whose \<open>command\<close> must be a string, \<open>customCwd\<close> an optional string, and
  \<open>modifySomething\<close>, \<open>background\<close> and \<open>timeout\<close> optional with the defaults
  \<open>true\<close>, \<open>false\<close> and \<open>300000\<close>. A JSON number is modelled by an integer;
  fractional numbers are outside the model. Like zod's \<open>safeParse\<close>, \<open>parse_params\<close>
  reports every failing field, in the order of the schema, or returns the parsed
  parameters with the defaults filled in.
\<close>

datatype jval = JString string | JBool bool | JNumber int | JNull | JOther

record raw_params =
  raw_command :: "jval option"
  raw_customCwd :: "jval option"
  raw_modifySomething :: "jval option"
  raw_background :: "jval option"
  raw_timeout :: "jval option"

record params =
  command :: string
  customCwd :: "string option"
  modifySomething :: bool
  background :: bool
  timeout :: int

datatype schema_issue = Required string | InvalidType string

fun req_string :: "string \<Rightarrow> jval option \<Rightarrow> schema_issue + string" where
  "req_string n None = Inl (Required n)"
| "req_string n (Some (JString s)) = Inr s"
| "req_string n (Some _) = Inl (InvalidType n)"

fun opt_string :: "string \<Rightarrow> jval option \<Rightarrow> schema_issue + string option" where
  "opt_string n None = Inr None"
| "opt_string n (Some (JString s)) = Inr (Some s)"
| "opt_string n (Some _) = Inl (InvalidType n)"

fun opt_bool :: "string \<Rightarrow> bool \<Rightarrow> jval option \<Rightarrow> schema_issue + bool" where
  "opt_bool n d None = Inr d"
| "opt_bool n d (Some (JBool b)) = Inr b"
| "opt_bool n d (Some _) = Inl (InvalidType n)"

fun opt_number :: "string \<Rightarrow> int \<Rightarrow> jval option \<Rightarrow> schema_issue + int" where
  "opt_number n d None = Inr d"
| "opt_number n d (Some (JNumber k)) = Inr k"
| "opt_number n d (Some _) = Inl (InvalidType n)"

definition issue_of :: "schema_issue + 'a \<Rightarrow> schema_issue list" where
  "issue_of r = (case r of Inl i \<Rightarrow> [i] | Inr _ \<Rightarrow> [])"

definition parse_params :: "raw_params \<Rightarrow> schema_issue list + params" where
  "parse_params r =
     (let c = req_string ''command'' (raw_command r);
          d = opt_string ''customCwd'' (raw_customCwd r);
          m = opt_bool ''modifySomething'' True (raw_modifySomething r);
          b = opt_bool ''background'' False (raw_background r);
          t = opt_number ''timeout'' default_timeout (raw_timeout r)
      in case (c, d, m, b, t) of
           (Inr c', Inr d', Inr m', Inr b', Inr t') \<Rightarrow>
             Inr \<lparr>command = c', customCwd = d', modifySomething = m', background = b', timeout = t'\<rparr>
         | _ \<Rightarrow> Inl (issue_of c @ issue_of d @ issue_of m @ issue_of b @ issue_of t))"

text \<open>The JSON object a client sends for given parameters, every field written out.\<close>

definition to_raw :: "params \<Rightarrow> raw_params" where
  "to_raw p =
     \<lparr>raw_command = Some (JString (command p)),
      raw_customCwd = map_option JString (customCwd p),
      raw_modifySomething = Some (JBool (modifySomething p)),
      raw_background = Some (JBool (background p)),
      raw_timeout = Some (JNumber (timeout p))\<rparr>"

definition command_only :: "string \<Rightarrow> raw_params" where
  "command_only c =
     \<lparr>raw_command = Some (JString c), raw_customCwd = None, raw_modifySomething = None,
      raw_background = None, raw_timeout = None\<rparr>"

lemma opt_string_map_JString [simp]: "opt_string n (map_option JString x) = Inr x"
  by (cases x) simp_all

lemma issue_of_Inr [simp]: "issue_of (Inr x) = []"
  and issue_of_Inl [simp]: "issue_of (Inl i) = [i]"
  by (simp_all add: issue_of_def)

text \<open>
  C14: the parameters a client sends, every field written out, parse back to
  themselves: the schema accepts every well-typed request and changes nothing in it.
\<close>

theorem parse_params_roundtrip: "parse_params (to_raw p) = Inr p"
  by (simp add: parse_params_def to_raw_def)

text \<open>
  C15: a request that gives only the command gets the documented defaults: modifying
  (so confirmation is asked), foreground, no custom directory, and a timeout of
  300000 ms.
\<close>

theorem parse_params_defaults:
  "parse_params (command_only c) =
     Inr \<lparr>command = c, customCwd = None, modifySomething = True, background = False,
          timeout = default_timeout\<rparr>"
  by (simp add: parse_params_def command_only_def)

text \<open>
  C16: a request without a command is rejected, and the first issue reported is that
  the command is required, whatever the other fields hold.
\<close>

theorem parse_params_missing_command:
  assumes "raw_command r = None"
  shows "\<exists>issues. parse_params r = Inl (Required ''command'' # issues)"
  using assms by (simp add: parse_params_def split: prod.splits sum.splits)

theorem parse_params_missing_command_witness:
  "raw_command (\<lparr>raw_command = None, raw_customCwd = None, raw_modifySomething = None,
       raw_background = Some (JBool True), raw_timeout = Some (JString ''10'')\<rparr>) = None \<and>
   parse_params \<lparr>raw_command = None, raw_customCwd = None, raw_modifySomething = None,
       raw_background = Some (JBool True), raw_timeout = Some (JString ''10'')\<rparr> =
     Inl [Required ''command'', InvalidType ''timeout'']"
proof -
  let ?r = "\<lparr>raw_command = None, raw_customCwd = None, raw_modifySomething = None,
       raw_background = Some (JBool True), raw_timeout = Some (JString ''10'')\<rparr>"
  have a: "raw_command ?r = None" by simp
  obtain issues where "parse_params ?r = Inl (Required ''command'' # issues)"
    using parse_params_missing_command [OF a] by blast
  then show ?thesis by (simp add: parse_params_def)
qed

end
