(* ===== verification/Handler.thy ===== *)
theory Handler
  imports Orchestrator Request
begin

text \<open>
  \<open>executeCommandToolHandler\<close>
  (\<open>src/packages/extension/src/tools/execute_command.ts\<close>, lines 146--168): the
  entry point the server calls with the parsed parameters. It takes the first
  workspace folder as the root (an empty list or an empty path is falsy and answers
  with an error), builds the tool for that root and runs \<open>execute\<close>, then turns the
  pair it returns into the protocol response \<open>{isError, content}\<close>. The source
  names the first component of the pair \<open>success\<close>, although \<open>execute\<close> declares
  it \<open>userRejected\<close> and always returns \<open>false\<close>; the model keeps the source's
  negation.
\<close>

record handler_response =
  is_error :: bool
  content :: "string list"

definition workspace_root :: "string list \<Rightarrow> string option" where
  "workspace_root folders = (case folders of [] \<Rightarrow> None | f # _ \<Rightarrow> Some f)"

definition no_workspace_response :: handler_response where
  "no_workspace_response = \<lparr>is_error = True, content = [''No workspace folder is open'']\<rparr>"

definition execute_command_tool_handler ::
  "string list \<Rightarrow> params \<Rightarrow> proc_run \<Rightarrow> world \<Rightarrow> handler_response \<times> world" where
  "execute_command_tool_handler folders prm p w =
     (case workspace_root folders of
        None \<Rightarrow> (no_workspace_response, w)
      | Some root \<Rightarrow>
          if \<not> js_truthy root then (no_workspace_response, w)
          else (let ((success, resp), w') =
                      execute root (command prm) (customCwd prm) (modifySomething prm)
                        (background prm) (timeout prm) p w
                in (\<lparr>is_error = \<not> success, content = [resp_text resp]\<rparr>, w')))"

lemma handler_root:
  "workspace_root folders = Some root \<Longrightarrow> js_truthy root \<Longrightarrow>
   execute_command_tool_handler folders prm p w =
     (\<lparr>is_error = \<not> fst (fst (execute root (command prm) (customCwd prm) (modifySomething prm)
                     (background prm) (timeout prm) p w)),
       content = [resp_text (snd (fst (execute root (command prm) (customCwd prm)
                     (modifySomething prm) (background prm) (timeout prm) p w)))]\<rparr>,
      snd (execute root (command prm) (customCwd prm) (modifySomething prm)
                     (background prm) (timeout prm) p w))"
  by (simp add: execute_command_tool_handler_def split: prod.splits)

text \<open>
  C6: the handler reports every outcome as an error: \<open>isError\<close> is \<open>true\<close> for a
  missing workspace, a denial, a completed command, a timed-out command and a
  background start alike, because it negates the always-\<open>false\<close> first component
  that \<open>execute\<close> returns.
\<close>

theorem handler_reports_error_always:
  "is_error (fst (execute_command_tool_handler folders prm p w))"
proof (cases "workspace_root folders")
  case None
  then show ?thesis
    by (simp add: execute_command_tool_handler_def no_workspace_response_def)
next
  case (Some root)
  show ?thesis
  proof (cases "js_truthy root")
    case True
    with Some show ?thesis by (simp add: handler_root execute_fst_False)
  next
    case False
    with Some show ?thesis
      by (simp add: execute_command_tool_handler_def no_workspace_response_def)
  qed
qed

text \<open>
  C7: with no workspace folder open the handler answers with the error
  \<open>No workspace folder is open\<close> before any confirmation, terminal or process work:
  the world is unchanged.
\<close>

theorem handler_no_workspace:
  assumes "workspace_root folders = None \<or> workspace_root folders = Some []"
  shows "execute_command_tool_handler folders prm p w =
    (\<lparr>is_error = True, content = [''No workspace folder is open'']\<rparr>, w)"
  using assms
  by (auto simp: execute_command_tool_handler_def no_workspace_response_def)

theorem handler_no_workspace_witness:
  "(workspace_root [] = None \<or> workspace_root [] = Some []) \<and>
   execute_command_tool_handler []
     \<lparr>command = ''echo hi'', customCwd = None, modifySomething = False, background = False,
      timeout = 300000\<rparr>
     \<lparr>events = [], finish = None\<rparr>
     \<lparr>confirm_nd = False, user_reply = [], reg = empty_registry, prompts = [],
      logs = [], shown = [], started = [], warns = [], clock = 0\<rparr> =
   (\<lparr>is_error = True, content = [''No workspace folder is open'']\<rparr>,
     \<lparr>confirm_nd = False, user_reply = [], reg = empty_registry, prompts = [],
      logs = [], shown = [], started = [], warns = [], clock = 0\<rparr>)"
proof -
  have a: "workspace_root [] = None \<or> workspace_root [] = Some []"
    by (simp add: workspace_root_def)
  show ?thesis
    using a handler_no_workspace [OF a] by simp
qed

end
