(* ===== verification/Extension.thy ===== *)
theory Extension
  imports Prelude
begin

text \<open>
  The activation of the extension (\<open>src/packages/extension/src/extension.ts\<close>): the
  status bar item and its update on each server status (\<open>updateServerStatusBar\<close>,
  lines 12--41), the start of the server with the SSH port-forwarding attempt
  (\<open>startServer\<close>, lines 58--99), the configuration of automatic port forwarding
  (lines 113--137) and the sequence of \<open>activate\<close> (lines 43--150). The editor is
  a \<open>host\<close> record: what the host answers (remote name, settings, available
  commands, the commands and updates that throw, what the transport reports while it
  connects) and what the extension leaves in it (the output channel, the status bar
  item, the transport, the subscriptions, the calls of \<open>registerVSCodeCommands\<close>).
  An awaited call that throws is a result \<open>host \<times> string option\<close>: the host as it
  stands when the exception is raised and the text \<open>${error}\<close> prints. The
  \<open>remote.portsAttributes\<close> setting is read as \<open>number[]\<close> by the code; a value
  that is not an array is \<open>None\<close>.
\<close>

datatype server_status = Running | Stopped | Starting | ToolListUpdated

record status_item =
  sb_text :: string
  sb_tooltip :: string
  sb_command :: "string option"
  sb_visible :: bool

definition status_item0 :: status_item where
  "status_item0 = \<lparr>sb_text = [], sb_tooltip = [], sb_command = None, sb_visible = False\<rparr>"

fun update_server_status_bar :: "status_item option \<Rightarrow> server_status \<Rightarrow> status_item option" where
  "update_server_status_bar None status = None"
| "update_server_status_bar (Some it) status =
     Some ((case status of
              Running \<Rightarrow> it\<lparr>sb_text := ''$(server) MCP Server'',
                sb_tooltip := ''MCP Server is running'', sb_command := Some ''mcpServer.stopServer''\<rparr>
            | Starting \<Rightarrow> it\<lparr>sb_text := ''$(sync~spin) MCP Server'',
                sb_tooltip := ''Starting...'', sb_command := None\<rparr>
            | ToolListUpdated \<Rightarrow> it\<lparr>sb_text := ''$(warning) MCP Server'',
                sb_tooltip := ''Tool list updated - Restart MCP Client'',
                sb_command := Some ''mcpServer.stopServer''\<rparr>
            | Stopped \<Rightarrow> it\<lparr>sb_text := ''$(circle-slash) MCP Server'',
                sb_tooltip := ''MCP Server is not running'',
                sb_command := Some ''mcpServer.toggleActiveStatus''\<rparr>)\<lparr>sb_visible := True\<rparr>)"

record host =
  remote_name :: "string option"
  cfg_port :: "int option"
  cfg_auto_forward :: "bool option"
  ports_attributes :: "int list option"
  commands :: "string list"
  failing :: "string \<Rightarrow> string option"
  update_error :: "string option"
  connect_statuses :: "server_status list"
  connect_error :: "string option"
  final_status :: server_status
  out_lines :: "string list"
  executed :: "string list"
  status_bar :: "status_item option"
  transport_port :: "int option"
  subscriptions :: "string list"
  registered :: "int option list"

definition log :: "string \<Rightarrow> host \<Rightarrow> host" where
  "log line h = h\<lparr>out_lines := out_lines h @ [line]\<rparr>"

definition is_ssh_remote :: "host \<Rightarrow> bool" where
  "is_ssh_remote h \<longleftrightarrow> remote_name h = Some ''ssh-remote''"

definition exec_command :: "string \<Rightarrow> host \<Rightarrow> host \<times> string option" where
  "exec_command c h = (h\<lparr>executed := executed h @ [c]\<rparr>, failing h c)"

definition forward_port_command :: string where
  "forward_port_command = ''remote-ssh.forwardPort''"

definition ssh_forward_port :: "int \<Rightarrow> host \<Rightarrow> host" where
  "ssh_forward_port port h =
     (let h1 = log ''DEBUG: Detected SSH remote environment: ssh-remote'' h;
          h2 = log (''DEBUG: Checking if command '' @ [CHR 0x27] @ forward_port_command @
                    [CHR 0x27] @ '' is available'') h1;
          h3 = (if forward_port_command \<in> set (commands h2)
                then (let (h', e) = exec_command forward_port_command
                            (log (''DEBUG: Attempting to forward port '' @ int_str port) h2)
                      in case e of
                           None \<Rightarrow> log (''DEBUG: Port '' @ int_str port @ '' forwarding initiated'') h'
                         | Some err \<Rightarrow> log (''WARNING: Failed to set up port forwarding: '' @ err) h')
                else log (''WARNING: Port forwarding command not available. '' @
                          ''VSCode may automatically forward the port.'') h2)
      in log ''NOTE: VSCode typically auto-forwards ports in SSH environments. Proceeding...'' h3)"

definition start_server :: "int \<Rightarrow> host \<Rightarrow> host \<times> string option" where
  "start_server port h =
     (let h1 = (if is_ssh_remote h then ssh_forward_port port h else h);
          h2 = log (''DEBUG: Starting MCP Server on port '' @ int_str port @ ''...'') h1;
          h3 = h2\<lparr>transport_port := Some port\<rparr>;
          h4 = h3\<lparr>status_bar := fold (\<lambda>s sb. update_server_status_bar sb s)
                                    (connect_statuses h3) (status_bar h3)\<rparr>
      in case connect_error h4 of
           Some e \<Rightarrow> (h4, Some e)
         | None \<Rightarrow> (h4\<lparr>status_bar := update_server_status_bar (status_bar h4) (final_status h4)\<rparr>, None))"

definition includes_error :: string where
  "includes_error = ''TypeError: portsToForward.includes is not a function''"

definition auto_forward_config :: "int \<Rightarrow> bool \<Rightarrow> host \<Rightarrow> host" where
  "auto_forward_config port af h =
     (if is_ssh_remote h \<and> af then
        (let h1 = log ''SSH Remote environment detected. Setting up automatic port forwarding.'' h;
             (h2, e) = exec_command ''remote.autoForwardPorts'' h1;
             fail = (\<lambda>err hh. log (''Failed to configure automatic port forwarding: '' @ err) hh)
         in case e of
              Some err \<Rightarrow> fail err h2
            | None \<Rightarrow>
                (let h3 = log ''Automatic port forwarding enabled.'' h2
                 in case ports_attributes h3 of
                      None \<Rightarrow> fail includes_error h3
                    | Some pts \<Rightarrow>
                        if port \<in> set pts then h3
                        else (case update_error h3 of
                                Some err \<Rightarrow> fail err h3
                              | None \<Rightarrow> log (''Added port '' @ int_str port @ '' to auto-forward list.'')
                                          (h3\<lparr>ports_attributes := Some (pts @ [port])\<rparr>))))
      else h)"

definition default_port :: int where
  "default_port = 60100"

definition configured_port :: "host \<Rightarrow> int" where
  "configured_port h = (case cfg_port h of None \<Rightarrow> default_port | Some p \<Rightarrow> p)"

definition configured_auto_forward :: "host \<Rightarrow> bool" where
  "configured_auto_forward h = (case cfg_auto_forward h of None \<Rightarrow> True | Some b \<Rightarrow> b)"

definition activate_setup :: "string \<Rightarrow> host \<Rightarrow> host" where
  "activate_setup name h =
     (let h1 = log (''Activating '' @ name @ ''...'') h;
          h2 = h1\<lparr>status_bar := Some status_item0,
                   subscriptions := subscriptions h1 @ [''statusBarItem'']\<rparr>
      in h2\<lparr>subscriptions := subscriptions h2 @ [''mcp-diff content provider'']\<rparr>)"

definition start_outcome_line :: "int \<Rightarrow> string option \<Rightarrow> string" where
  "start_outcome_line port e =
     (case e of
        None \<Rightarrow> ''MCP Server started on port '' @ int_str port @ ''.''
      | Some err \<Rightarrow> ''Failed to start MCP Server: '' @ err)"

definition activate :: "string \<Rightarrow> host \<Rightarrow> host" where
  "activate name h =
     (let h3 = activate_setup name h;
          port = configured_port h3;
          h4 = auto_forward_config port (configured_auto_forward h3) h3;
          (h5, e) = start_server port h4;
          h6 = log (start_outcome_line port e) h5;
          h7 = h6\<lparr>registered := registered h6 @ [transport_port h6]\<rparr>
      in log (name @ '' activated.'') h7)"

lemma log_fields [simp]:
  "out_lines (log l h) = out_lines h @ [l]"
  "registered (log l h) = registered h" "status_bar (log l h) = status_bar h"
  "transport_port (log l h) = transport_port h" "ports_attributes (log l h) = ports_attributes h"
  "remote_name (log l h) = remote_name h" "failing (log l h) = failing h"
  "update_error (log l h) = update_error h" "connect_statuses (log l h) = connect_statuses h"
  "connect_error (log l h) = connect_error h" "final_status (log l h) = final_status h"
  "cfg_port (log l h) = cfg_port h" "cfg_auto_forward (log l h) = cfg_auto_forward h"
  by (simp_all add: log_def)

lemma ssh_forward_port_fields:
  "registered (ssh_forward_port port h) = registered h \<and>
   status_bar (ssh_forward_port port h) = status_bar h \<and>
   connect_statuses (ssh_forward_port port h) = connect_statuses h \<and>
   connect_error (ssh_forward_port port h) = connect_error h \<and>
   final_status (ssh_forward_port port h) = final_status h \<and>
   ports_attributes (ssh_forward_port port h) = ports_attributes h"
  by (simp add: ssh_forward_port_def exec_command_def Let_def split: option.splits)

lemma auto_forward_config_fields:
  "registered (auto_forward_config port af h) = registered h \<and>
   status_bar (auto_forward_config port af h) = status_bar h \<and>
   remote_name (auto_forward_config port af h) = remote_name h \<and>
   connect_statuses (auto_forward_config port af h) = connect_statuses h \<and>
   connect_error (auto_forward_config port af h) = connect_error h \<and>
   final_status (auto_forward_config port af h) = final_status h \<and>
   cfg_port (auto_forward_config port af h) = cfg_port h \<and>
   cfg_auto_forward (auto_forward_config port af h) = cfg_auto_forward h"
  by (simp add: auto_forward_config_def Let_def exec_command_def
      split: prod.splits option.splits)

lemma start_server_fields:
  "snd (start_server port h) = connect_error h \<and>
   transport_port (fst (start_server port h)) = Some port \<and>
   registered (fst (start_server port h)) = registered h \<and>
   ports_attributes (fst (start_server port h)) = ports_attributes h \<and>
   status_bar (fst (start_server port h)) =
     (let sb = fold (\<lambda>s sb. update_server_status_bar sb s) (connect_statuses h) (status_bar h)
      in case connect_error h of None \<Rightarrow> update_server_status_bar sb (final_status h) | Some _ \<Rightarrow> sb)"
  by (simp add: start_server_def Let_def ssh_forward_port_fields split: option.splits)

lemma activate_setup_fields:
  "registered (activate_setup name h) = registered h \<and>
   status_bar (activate_setup name h) = Some status_item0 \<and>
   ports_attributes (activate_setup name h) = ports_attributes h \<and>
   remote_name (activate_setup name h) = remote_name h \<and>
   failing (activate_setup name h) = failing h \<and>
   update_error (activate_setup name h) = update_error h \<and>
   connect_statuses (activate_setup name h) = connect_statuses h \<and>
   connect_error (activate_setup name h) = connect_error h \<and>
   final_status (activate_setup name h) = final_status h \<and>
   cfg_port (activate_setup name h) = cfg_port h \<and>
   cfg_auto_forward (activate_setup name h) = cfg_auto_forward h"
  by (simp add: activate_setup_def Let_def)

lemma activate_eq:
  "activate name h =
     (let h4 = auto_forward_config (configured_port h) (configured_auto_forward h)
                 (activate_setup name h);
          h5 = fst (start_server (configured_port h) h4)
      in log (name @ '' activated.'')
           ((log (start_outcome_line (configured_port h) (connect_error h)) h5)
              \<lparr>registered := registered h @ [Some (configured_port h)]\<rparr>))"
proof -
  have "configured_port (activate_setup name h) = configured_port h"
    and "configured_auto_forward (activate_setup name h) = configured_auto_forward h"
    by (simp_all add: configured_port_def configured_auto_forward_def activate_setup_fields)
  then show ?thesis
    by (simp add: activate_def Let_def split_def start_server_fields auto_forward_config_fields
        activate_setup_fields)
qed

text \<open>
  C20: activation always runs to its end, whatever the host's calls throw: the last
  line of the output channel is \<open>... activated.\<close>, the commands are registered once,
  with the transport that \<open>startServer\<close> created for the configured port
  (60100 by default).
\<close>

theorem activate_always_completes:
  "last (out_lines (activate name h)) = name @ '' activated.'' \<and>
   registered (activate name h) =
     registered h @ [Some (case cfg_port h of None \<Rightarrow> default_port | Some p \<Rightarrow> p)] \<and>
   transport_port (activate name h) = Some (case cfg_port h of None \<Rightarrow> default_port | Some p \<Rightarrow> p)"
  by (simp add: activate_eq Let_def start_server_fields configured_port_def)


lemma update_server_status_bar_twice:
  "update_server_status_bar (update_server_status_bar sb s1) s2 = update_server_status_bar sb s2"
  by (cases sb; cases s1; cases s2) simp_all

lemma activate_outcome:
  "status_bar (activate name h) =
     (let sb = fold (\<lambda>s sb. update_server_status_bar sb s) (connect_statuses h) (Some status_item0)
      in case connect_error h of None \<Rightarrow> update_server_status_bar sb (final_status h) | Some _ \<Rightarrow> sb) \<and>
   start_outcome_line (configured_port h) (connect_error h) \<in> set (out_lines (activate name h))"
  by (simp add: activate_eq Let_def start_server_fields auto_forward_config_fields
      activate_setup_fields split: option.split)

text \<open>
  C21: when the transport connects, the output channel reports the server as started
  on the configured port, and the status bar shows the status the transport reports
  at the end of the connection, after those it reported while connecting.
\<close>

theorem activate_connected:
  assumes "connect_error h = None"
  shows "status_bar (activate name h) =
      update_server_status_bar
        (fold (\<lambda>s sb. update_server_status_bar sb s) (connect_statuses h) (Some status_item0))
        (final_status h) \<and>
    ''MCP Server started on port '' @ int_str (configured_port h) @ ''.''
      \<in> set (out_lines (activate name h))"
  using assms activate_outcome [of name h] by (simp add: start_outcome_line_def)

theorem activate_connected_witness:
  "connect_error
     \<lparr>remote_name = None, cfg_port = Some 8123, cfg_auto_forward = None, ports_attributes = None,
      commands = [], failing = (\<lambda>_. None), update_error = None, connect_statuses = [Starting],
      connect_error = None, final_status = Running, out_lines = [],
      executed = [], status_bar = None, transport_port = None, subscriptions = [],
      registered = []\<rparr> = None \<and>
   status_bar (activate ''VSCode MCP Server''
     \<lparr>remote_name = None, cfg_port = Some 8123, cfg_auto_forward = None, ports_attributes = None,
      commands = [], failing = (\<lambda>_. None), update_error = None, connect_statuses = [Starting],
      connect_error = None, final_status = Running, out_lines = [],
      executed = [], status_bar = None, transport_port = None, subscriptions = [],
      registered = []\<rparr>) =
     Some \<lparr>sb_text = ''$(server) MCP Server'', sb_tooltip = ''MCP Server is running'',
           sb_command = Some ''mcpServer.stopServer'', sb_visible = True\<rparr>"
proof -
  let ?H = "\<lparr>remote_name = None, cfg_port = Some 8123, cfg_auto_forward = None,
      ports_attributes = None, commands = [], failing = (\<lambda>_. None), update_error = None,
      connect_statuses = [Starting], connect_error = None, final_status = Running, out_lines = [],
      executed = [], status_bar = None, transport_port = None, subscriptions = [],
      registered = []\<rparr>"
  have a: "connect_error ?H = None" by simp
  show ?thesis
    using a activate_connected [OF a, of "''VSCode MCP Server''"]
    by (simp add: status_item0_def)
qed

text \<open>
  C22: when connecting throws, activation logs the error and goes on, and the status
  bar is left as the transport last reported it during the failed connection (a
  spinner reading \<open>Starting...\<close>, with no click action, if that was the last report).
\<close>

theorem activate_connect_failure:
  assumes "connect_error h = Some e"
  shows "''Failed to start MCP Server: '' @ e \<in> set (out_lines (activate name h)) \<and>
    status_bar (activate name h) =
      fold (\<lambda>s sb. update_server_status_bar sb s) (connect_statuses h) (Some status_item0)"
  using assms activate_outcome [of name h] by (simp add: start_outcome_line_def)

theorem activate_connect_failure_witness:
  "connect_error
     \<lparr>remote_name = None, cfg_port = None, cfg_auto_forward = None, ports_attributes = None,
      commands = [], failing = (\<lambda>_. None), update_error = None, connect_statuses = [Starting],
      connect_error = Some ''Error: listen EADDRINUSE'', final_status = Stopped, out_lines = [],
      executed = [], status_bar = None, transport_port = None, subscriptions = [],
      registered = []\<rparr> = Some ''Error: listen EADDRINUSE'' \<and>
   sb_command (the (status_bar (activate ''VSCode MCP Server''
     \<lparr>remote_name = None, cfg_port = None, cfg_auto_forward = None, ports_attributes = None,
      commands = [], failing = (\<lambda>_. None), update_error = None, connect_statuses = [Starting],
      connect_error = Some ''Error: listen EADDRINUSE'', final_status = Stopped, out_lines = [],
      executed = [], status_bar = None, transport_port = None, subscriptions = [],
      registered = []\<rparr>))) = None"
proof -
  let ?H = "\<lparr>remote_name = None, cfg_port = None, cfg_auto_forward = None, ports_attributes = None,
      commands = [], failing = (\<lambda>_. None), update_error = None, connect_statuses = [Starting],
      connect_error = Some ''Error: listen EADDRINUSE'', final_status = Stopped, out_lines = [],
      executed = [], status_bar = None, transport_port = None, subscriptions = [],
      registered = []\<rparr>"
  have a: "connect_error ?H = Some ''Error: listen EADDRINUSE''" by simp
  show ?thesis
    using a activate_connect_failure [OF a, of "''VSCode MCP Server''"]
    by (simp add: status_item0_def)
qed

text \<open>
  C23: the status bar item depends on the last status reported only: after any
  sequence of status changes, no text, tooltip or click action of an earlier status
  survives.
\<close>

theorem status_bar_last_status_wins:
  "update_server_status_bar (fold (\<lambda>s sb. update_server_status_bar sb s) ss sb) s =
   update_server_status_bar sb s"
proof (induction ss arbitrary: sb)
  case (Cons s' ss)
  then show ?case by (simp add: update_server_status_bar_twice)
qed simp


lemma auto_forward_config_ports:
  "ports_attributes (auto_forward_config port af h) =
     (if is_ssh_remote h \<and> af \<and> failing h ''remote.autoForwardPorts'' = None \<and>
         update_error h = None
      then (case ports_attributes h of
              None \<Rightarrow> None
            | Some pts \<Rightarrow> Some (if port \<in> set pts then pts else pts @ [port]))
      else ports_attributes h)"
  by (simp add: auto_forward_config_def exec_command_def Let_def split: option.splits)

lemma auto_forward_config_guards:
  "is_ssh_remote (auto_forward_config port af h) = is_ssh_remote h \<and>
   failing (auto_forward_config port af h) = failing h \<and>
   update_error (auto_forward_config port af h) = update_error h"
  by (simp add: auto_forward_config_def exec_command_def is_ssh_remote_def Let_def
      split: option.splits)

text \<open>
  C24: configuring automatic port forwarding a second time (a second activation with
  the same settings) never changes the forwarded-port list again: the port is added
  at most once, whatever fails.
\<close>

theorem auto_forward_config_idempotent:
  "ports_attributes (auto_forward_config port af (auto_forward_config port af h)) =
   ports_attributes (auto_forward_config port af h)"
  by (simp add: auto_forward_config_ports auto_forward_config_guards split: option.splits)

text \<open>
  C25: in an SSH remote with automatic forwarding on, when enabling it succeeds and
  the setting holds a list of ports, activation leaves the configured port in the
  list, appended once if it was missing.
\<close>

theorem activate_adds_port:
  assumes "is_ssh_remote h" "cfg_auto_forward h \<noteq> Some False"
    "failing h ''remote.autoForwardPorts'' = None" "update_error h = None"
    "ports_attributes h = Some pts"
  shows "ports_attributes (activate name h) =
    Some (if configured_port h \<in> set pts then pts else pts @ [configured_port h])"
proof -
  have "configured_auto_forward h" using assms(2)
    by (cases "cfg_auto_forward h") (auto simp: configured_auto_forward_def)
  moreover have "is_ssh_remote (activate_setup name h)"
    using assms(1) by (simp add: is_ssh_remote_def activate_setup_fields)
  ultimately show ?thesis
    using assms
    by (simp add: activate_eq Let_def start_server_fields auto_forward_config_ports
        activate_setup_fields)
qed

theorem activate_adds_port_witness:
  "is_ssh_remote
     \<lparr>remote_name = Some ''ssh-remote'', cfg_port = None, cfg_auto_forward = None,
      ports_attributes = Some [3000], commands = [], failing = (\<lambda>_. None), update_error = None,
      connect_statuses = [], connect_error = None, final_status = Running, out_lines = [],
      executed = [], status_bar = None, transport_port = None, subscriptions = [],
      registered = []\<rparr> \<and>
   ports_attributes (activate ''VSCode MCP Server''
     \<lparr>remote_name = Some ''ssh-remote'', cfg_port = None, cfg_auto_forward = None,
      ports_attributes = Some [3000], commands = [], failing = (\<lambda>_. None), update_error = None,
      connect_statuses = [], connect_error = None, final_status = Running, out_lines = [],
      executed = [], status_bar = None, transport_port = None, subscriptions = [],
      registered = []\<rparr>) = Some [3000, 60100]"
proof -
  let ?H = "\<lparr>remote_name = Some ''ssh-remote'', cfg_port = None, cfg_auto_forward = None,
      ports_attributes = Some [3000], commands = [], failing = (\<lambda>_. None), update_error = None,
      connect_statuses = [], connect_error = None, final_status = Running, out_lines = [],
      executed = [], status_bar = None, transport_port = None, subscriptions = [],
      registered = []\<rparr>"
  have a: "is_ssh_remote ?H" by (simp add: is_ssh_remote_def)
  have b: "cfg_auto_forward ?H \<noteq> Some False" by simp
  show ?thesis
    using a activate_adds_port [OF a b, of "[3000]" "''VSCode MCP Server''"]
    by (simp add: configured_port_def default_port_def)
qed

text \<open>
  C26: the code reads \<open>remote.portsAttributes\<close> as an array of port numbers; when
  the setting holds anything else (the editor declares it an object keyed by port),
  calling \<open>includes\<close> throws a \<open>TypeError\<close>, the failure is logged and the port is
  never added.
\<close>

theorem ports_attributes_not_array:
  assumes "is_ssh_remote h" "failing h ''remote.autoForwardPorts'' = None"
    "ports_attributes h = None"
  shows "ports_attributes (auto_forward_config port True h) = None \<and>
    last (out_lines (auto_forward_config port True h)) =
      ''Failed to configure automatic port forwarding: '' @
      ''TypeError: portsToForward.includes is not a function''"
  using assms
  by (simp add: auto_forward_config_def exec_command_def includes_error_def Let_def)

theorem ports_attributes_not_array_witness:
  "is_ssh_remote
     \<lparr>remote_name = Some ''ssh-remote'', cfg_port = None, cfg_auto_forward = None,
      ports_attributes = None, commands = [], failing = (\<lambda>_. None), update_error = None,
      connect_statuses = [], connect_error = None, final_status = Running, out_lines = [],
      executed = [], status_bar = None, transport_port = None, subscriptions = [],
      registered = []\<rparr> \<and>
   ports_attributes (auto_forward_config 60100 True
     \<lparr>remote_name = Some ''ssh-remote'', cfg_port = None, cfg_auto_forward = None,
      ports_attributes = None, commands = [], failing = (\<lambda>_. None), update_error = None,
      connect_statuses = [], connect_error = None, final_status = Running, out_lines = [],
      executed = [], status_bar = None, transport_port = None, subscriptions = [],
      registered = []\<rparr>) = None"
proof -
  let ?H = "\<lparr>remote_name = Some ''ssh-remote'', cfg_port = None, cfg_auto_forward = None,
      ports_attributes = None, commands = [], failing = (\<lambda>_. None), update_error = None,
      connect_statuses = [], connect_error = None, final_status = Running, out_lines = [],
      executed = [], status_bar = None, transport_port = None, subscriptions = [],
      registered = []\<rparr>"
  have a: "is_ssh_remote ?H" by (simp add: is_ssh_remote_def)
  have b: "failing ?H ''remote.autoForwardPorts'' = None" by simp
  have c: "ports_attributes ?H = None" by simp
  show ?thesis
    using a ports_attributes_not_array [OF a b c, of 60100] by simp
qed

end
