(* ===== verification/Phases.thy ===== *)
theory Phases
  imports Orchestrator
begin

text \<open>
  \<open>execute\<close> cut at its suspension points (the prompt, the start of the command, the
  race), as the specification's section 4.4 describes the call: a configuration holds
  the phase the call is in, the world, the acquired terminal and the reply; each step
  of \<open>exec_step\<close> is built from the same component functions as \<open>execute\<close>
  (\<open>should_confirm\<close>, \<open>ask_prompt\<close>, \<open>approved\<close>, \<open>start_command\<close>,
  \<open>resume_time\<close>, \<open>deliver\<close>, \<open>final_reply\<close>). \<open>run_fuel\<close> runs it with a bound
  on the number of steps, and \<open>run_fuel_agrees_with_execute\<close> shows that three
  steps from \<open>Idle\<close> give exactly the reply and the world of \<open>execute\<close>. The step
  model is what \<open>Interleave\<close> interleaves.
\<close>

datatype phase = PIdle | PConfirmationPending | PRunning
  | PBackgroundReturned | PCompleted | PTimedOut | PRejected

definition terminal_phase :: "phase \<Rightarrow> bool" where
  "terminal_phase p \<longleftrightarrow> p \<in> {PBackgroundReturned, PCompleted, PTimedOut, PRejected}"

record call =
  c_cwd :: string
  c_cmd :: string
  c_custom :: "string option"
  c_modify :: bool
  c_bg :: bool
  c_tmo :: int
  c_proc :: proc_run

record ocfg =
  ph :: phase
  wst :: world
  tinfo :: "terminal_info option"
  reply :: "exec_result option"

definition init_cfg :: "world \<Rightarrow> ocfg" where
  "init_cfg w = \<lparr>ph = PIdle, wst = w, tinfo = None, reply = None\<rparr>"

definition enter_running :: "call \<Rightarrow> ocfg \<Rightarrow> ocfg" where
  "enter_running q c =
     (let (t, w2) = start_command (c_cwd q) (c_custom q) (c_cmd q) (wst c)
      in c\<lparr>ph := PRunning, wst := w2, tinfo := Some t\<rparr>)"

definition finish_running :: "call \<Rightarrow> terminal_info \<Rightarrow> ocfg \<Rightarrow> ocfg" where
  "finish_running q t c =
     (if c_bg q
      then c\<lparr>ph := PBackgroundReturned, reply := Some (False, tool_result (background_text (tid t)))\<rparr>
      else (let te = resume_time (c_tmo q) (c_proc q);
                ls = deliver listeners0 (observed te (events (c_proc q)));
                w = wst c
            in c\<lparr>ph := (if completed ls then PCompleted else PTimedOut),
                 reply := Some (final_reply (tid t) (c_tmo q) ls),
                 wst := w\<lparr>warns := warns w @ warnings ls, clock := clock w + te\<rparr>\<rparr>))"

fun exec_step :: "call \<Rightarrow> ocfg \<Rightarrow> ocfg option" where
  "exec_step q c =
     (let w = wst c in
      case ph c of
        PIdle \<Rightarrow>
          Some (if should_confirm (c_modify q) (confirm_nd w)
                then c\<lparr>ph := PConfirmationPending,
                       wst := w\<lparr>prompts := prompts w @ [ask_prompt (c_cmd q)]\<rparr>\<rparr>
                else enter_running q (c\<lparr>wst := w\<lparr>logs := logs w @
                       [''Executing read-only command without confirmation: '' @ c_cmd q]\<rparr>\<rparr>))
      | PConfirmationPending \<Rightarrow>
          Some (if \<not> approved (user_reply w)
                then c\<lparr>ph := PRejected,
                       reply := Some (False, tool_result (denial_text (user_reply w)))\<rparr>
                else enter_running q c)
      | PRunning \<Rightarrow> (case tinfo c of None \<Rightarrow> None | Some t \<Rightarrow> Some (finish_running q t c))
      | _ \<Rightarrow> None)"

fun run_fuel :: "nat \<Rightarrow> call \<Rightarrow> ocfg \<Rightarrow> ocfg option" where
  "run_fuel 0 q c = (if terminal_phase (ph c) then Some c else None)"
| "run_fuel (Suc n) q c =
     (if terminal_phase (ph c) then Some c
      else case exec_step q c of None \<Rightarrow> None | Some c' \<Rightarrow> run_fuel n q c')"

lemma ph_enter_running [simp]: "ph (enter_running q c) = PRunning"
  by (simp add: enter_running_def split: prod.splits)

lemma ph_finish_running:
  "ph (finish_running q t c) \<in> {PBackgroundReturned, PCompleted, PTimedOut}"
  by (simp add: finish_running_def Let_def)

lemma terminal_phase_simps [simp]:
  "\<not> terminal_phase PIdle" "\<not> terminal_phase PConfirmationPending" "\<not> terminal_phase PRunning"
  "terminal_phase PRejected" "terminal_phase PBackgroundReturned"
  "terminal_phase PCompleted" "terminal_phase PTimedOut"
  by (simp_all add: terminal_phase_def)

lemma terminal_finish_running [simp]: "terminal_phase (ph (finish_running q t c))"
  using ph_finish_running [of q t c] by (auto simp: terminal_phase_def)

lemma run_fuel_terminal: "terminal_phase (ph c) \<Longrightarrow> run_fuel n q c = Some c"
  by (cases n) simp_all

lemma run_fuel_running:
  "ph c = PRunning \<Longrightarrow> tinfo c = Some t \<Longrightarrow> run_fuel (Suc n) q c = Some (finish_running q t c)"
  by (simp add: terminal_phase_def run_fuel_terminal [OF terminal_finish_running])

lemma enter_running_eq:
  "enter_running q c =
     c\<lparr>ph := PRunning, wst := snd (start_command (c_cwd q) (c_custom q) (c_cmd q) (wst c)),
       tinfo := Some (fst (start_command (c_cwd q) (c_custom q) (c_cmd q) (wst c)))\<rparr>"
  by (simp add: enter_running_def split: prod.splits)


text \<open>
  The step model and \<open>execute\<close> agree: three steps from \<open>Idle\<close> reach a final phase
  with exactly the reply and the world that \<open>execute\<close> computes, so what is proved
  of interleaved steps speaks of the calls \<open>execute\<close> makes.
\<close>

lemma run_fuel_agrees_with_execute:
  "\<exists>c. run_fuel 3 q (init_cfg w) = Some c \<and> terminal_phase (ph c) \<and>
     reply c = Some (fst (execute (c_cwd q) (c_cmd q) (c_custom q) (c_modify q) (c_bg q)
                         (c_tmo q) (c_proc q) w)) \<and>
     wst c = snd (execute (c_cwd q) (c_cmd q) (c_custom q) (c_modify q) (c_bg q)
                         (c_tmo q) (c_proc q) w)"
proof -
  let ?x = "execute (c_cwd q) (c_cmd q) (c_custom q) (c_modify q) (c_bg q) (c_tmo q) (c_proc q) w"
  show ?thesis
  proof (cases "gate (c_cmd q) (c_modify q) w")
    case (Inl rw)
    then have d: "should_confirm (c_modify q) (confirm_nd w)" "\<not> approved (user_reply w)"
      using gate_Inl_iff [of "c_cmd q" "c_modify q" w] by (auto simp: gate_passes_def)
    then have "run_fuel 3 q (init_cfg w) =
      Some \<lparr>ph = PRejected, wst = w\<lparr>prompts := prompts w @ [ask_prompt (c_cmd q)]\<rparr>,
            tinfo = None, reply = Some (False, tool_result (denial_text (user_reply w)))\<rparr>"
      by (simp add: numeral_3_eq_3 init_cfg_def run_fuel_terminal)
    moreover have "?x = ((False, tool_result (denial_text (user_reply w))),
                        w\<lparr>prompts := prompts w @ [ask_prompt (c_cmd q)]\<rparr>)"
      using d by (simp add: execute_def gate_denied)
    ultimately show ?thesis by (simp add:)
  next
    case (Inr w1)
    let ?t = "fst (start_command (c_cwd q) (c_custom q) (c_cmd q) w1)"
    let ?c1 = "\<lparr>ph = PRunning, wst = snd (start_command (c_cwd q) (c_custom q) (c_cmd q) w1),
                tinfo = Some ?t, reply = None\<rparr>"
    have r: "run_fuel 3 q (init_cfg w) = Some (finish_running q ?t ?c1)"
    proof (cases "should_confirm (c_modify q) (confirm_nd w)")
      case True
      with Inr have "approved (user_reply w)" "w1 = w\<lparr>prompts := prompts w @ [ask_prompt (c_cmd q)]\<rparr>"
        by (auto simp: gate_def Let_def split: if_splits)
      with True show ?thesis
        by (simp add: numeral_3_eq_3 init_cfg_def enter_running_eq
            run_fuel_running Let_def)
    next
      case False
      with Inr have "w1 = w\<lparr>logs := logs w @
                       [''Executing read-only command without confirmation: '' @ c_cmd q]\<rparr>"
        by (simp add: gate_def)
      with False show ?thesis
        by (simp add: numeral_3_eq_3 init_cfg_def enter_running_eq
            run_fuel_running Let_def)
    qed
    have "?x = (let t = acquired (c_cwd q) (c_custom q) w1;
                    w2 = snd (start_command (c_cwd q) (c_custom q) (c_cmd q) w1)
                in if c_bg q then ((False, tool_result (background_text (tid t))), w2)
                   else (let te = resume_time (c_tmo q) (c_proc q);
                             ls = deliver listeners0 (observed te (events (c_proc q)))
                         in (final_reply (tid t) (c_tmo q) ls,
                             w2\<lparr>warns := warns w2 @ warnings ls, clock := clock w2 + te\<rparr>)))"
      using Inr by (rule execute_Inr)
    then show ?thesis
      using r terminal_finish_running [of q ?t ?c1]
      by (simp add: finish_running_def start_command_eq acquired_def Let_def)
  qed
qed

end
