(* ===== verification/Interleave.thy ===== *)
theory Interleave
  imports Phases
begin

text \<open>
  Two calls of \<open>execute\<close> interleaved at their suspension points (section 5 of the
  specification: scheduling is cooperative, the only suspension points are the
  prompt, the race and the grace delay, and the session pool is shared). Each call
  is a configuration of the step model of \<open>Phases\<close>; the world, and with it the
  terminal registry, is shared: a step of either call runs on the current world and
  leaves its world as the new current one. \<open>inter_reach\<close> is the set of states
  reachable by any interleaving; \<open>inter_env\<close> adds the user closing terminals as
  steps of the environment. Invariants proved by rule induction carry the two claims:
  without closes, two calls on the same directory hold the same terminal whatever
  the order of their steps; with closes, they do whenever both terminals are still
  live. Acquiring a terminal is one atomic step (the specification's registry), and
  both prompts are answered with the reply the world holds.
\<close>

definition call_dir :: "call \<Rightarrow> string" where
  "call_dir q = effective_cwd (c_cwd q) (c_custom q)"

definition step_shared :: "call \<Rightarrow> world \<Rightarrow> ocfg \<Rightarrow> ocfg option" where
  "step_shared q w c = exec_step q (c\<lparr>wst := w\<rparr>)"

inductive inter_reach :: "call \<Rightarrow> call \<Rightarrow> world \<Rightarrow> world \<Rightarrow> ocfg \<Rightarrow> ocfg \<Rightarrow> bool"
  for q1 q2 w0 where
  init: "inter_reach q1 q2 w0 w0 (init_cfg w0) (init_cfg w0)"
| first: "inter_reach q1 q2 w0 w c1 c2 \<Longrightarrow> step_shared q1 w c1 = Some c1' \<Longrightarrow>
    inter_reach q1 q2 w0 (wst c1') c1' c2"
| second: "inter_reach q1 q2 w0 w c1 c2 \<Longrightarrow> step_shared q2 w c2 = Some c2' \<Longrightarrow>
    inter_reach q1 q2 w0 (wst c2') c1 c2'"

text \<open>A call holds a terminal of the registry that is live and bound to its directory.\<close>

definition holds_terminal :: "call \<Rightarrow> registry \<Rightarrow> ocfg \<Rightarrow> bool" where
  "holds_terminal q r c \<longleftrightarrow>
     (case tinfo c of None \<Rightarrow> True
      | Some t \<Rightarrow> t \<in> set (terms r) \<and> alive t \<and> tcwd t = call_dir q)"

definition inter_inv :: "call \<Rightarrow> call \<Rightarrow> world \<Rightarrow> ocfg \<Rightarrow> ocfg \<Rightarrow> bool" where
  "inter_inv q1 q2 w c1 c2 \<longleftrightarrow>
     reg_inv (reg w) \<and> holds_terminal q1 (reg w) c1 \<and> holds_terminal q2 (reg w) c2"

text \<open>
  The same interleavings with the user closing terminals in between, at any moment
  and any number of times: the only way a session dies (section 3). A close is a
  step of the environment, beside the steps of the two calls.
\<close>

inductive inter_env :: "call \<Rightarrow> call \<Rightarrow> world \<Rightarrow> world \<Rightarrow> ocfg \<Rightarrow> ocfg \<Rightarrow> bool"
  for q1 q2 w0 where
  init: "inter_env q1 q2 w0 w0 (init_cfg w0) (init_cfg w0)"
| first: "inter_env q1 q2 w0 w c1 c2 \<Longrightarrow> step_shared q1 w c1 = Some c1' \<Longrightarrow>
    inter_env q1 q2 w0 (wst c1') c1' c2"
| second: "inter_env q1 q2 w0 w c1 c2 \<Longrightarrow> step_shared q2 w c2 = Some c2' \<Longrightarrow>
    inter_env q1 q2 w0 (wst c2') c1 c2'"
| close: "inter_env q1 q2 w0 w c1 c2 \<Longrightarrow>
    inter_env q1 q2 w0 (w\<lparr>reg := close_terminal i (reg w)\<rparr>) c1 c2"

text \<open>Whether the registry holds a live terminal with a given identifier.\<close>

definition is_live :: "registry \<Rightarrow> term_id \<Rightarrow> bool" where
  "is_live r i \<longleftrightarrow> list_ex (\<lambda>t. tid t = i \<and> alive t) (terms r)"

text \<open>
  A call has acquired a terminal bound to its directory whose entry (identifier and
  directory, which a close leaves alone) is still in the registry.
\<close>

definition holds_entry :: "call \<Rightarrow> registry \<Rightarrow> ocfg \<Rightarrow> bool" where
  "holds_entry q r c \<longleftrightarrow>
     (case tinfo c of None \<Rightarrow> True
      | Some t \<Rightarrow> alive t \<and> tcwd t = call_dir q \<and>
          list_ex (\<lambda>t'. tid t' = tid t \<and> tcwd t' = tcwd t) (terms r))"

lemma finish_running_keeps:
  "reg (wst (finish_running q t c)) = reg (wst c) \<and> tinfo (finish_running q t c) = tinfo c"
  by (simp add: finish_running_def Let_def)

lemma exec_step_effect:
  assumes "exec_step q c = Some c'"
  shows "(reg (wst c') = reg (wst c) \<and> tinfo c' = tinfo c) \<or>
    (reg (wst c') = snd (get_or_create (call_dir q) (reg (wst c))) \<and>
     tinfo c' = Some (fst (get_or_create (call_dir q) (reg (wst c)))))"
proof (cases "ph c")
  case PRunning
  then show ?thesis using assms by (auto simp: finish_running_keeps split: option.splits)
qed (use assms in \<open>auto simp: enter_running_eq start_command_eq call_dir_def Let_def
    split: if_splits\<close>)

lemma get_or_create_terms_mono: "set (terms r) \<subseteq> set (terms (snd (get_or_create cwd r)))"
  by (cases rule: get_or_create_cases [of cwd r]) auto

lemma holds_terminal_mono:
  "holds_terminal q r c \<Longrightarrow> set (terms r) \<subseteq> set (terms r') \<Longrightarrow> holds_terminal q r' c"
  by (auto simp: holds_terminal_def split: option.splits)

lemma holds_terminal_acquired:
  "tinfo c = Some (fst (get_or_create (call_dir q) r)) \<Longrightarrow>
   holds_terminal q (snd (get_or_create (call_dir q) r)) c"
  using get_or_create_result [of "call_dir q" r "fst (get_or_create (call_dir q) r)"
      "snd (get_or_create (call_dir q) r)"]
  by (simp add: holds_terminal_def)

lemma step_shared_inv:
  assumes "reg_inv (reg w)" "holds_terminal q (reg w) c" "holds_terminal q' (reg w) d"
    "step_shared q w c = Some c'"
  shows "reg_inv (reg (wst c')) \<and> holds_terminal q (reg (wst c')) c' \<and>
    holds_terminal q' (reg (wst c')) d"
proof -
  have e: "exec_step q (c\<lparr>wst := w\<rparr>) = Some c'"
    using assms(4) by (simp add: step_shared_def)
  show ?thesis
    using exec_step_effect [OF e]
  proof
    assume "reg (wst c') = reg (wst (c\<lparr>wst := w\<rparr>)) \<and> tinfo c' = tinfo (c\<lparr>wst := w\<rparr>)"
    then show ?thesis using assms(1-3) by (simp add: holds_terminal_def)
  next
    assume a: "reg (wst c') = snd (get_or_create (call_dir q) (reg (wst (c\<lparr>wst := w\<rparr>)))) \<and>
      tinfo c' = Some (fst (get_or_create (call_dir q) (reg (wst (c\<lparr>wst := w\<rparr>)))))"
    then show ?thesis
      using get_or_create_inv [OF assms(1)] holds_terminal_acquired
        holds_terminal_mono [OF assms(3) get_or_create_terms_mono]
      by simp
  qed
qed

lemma inter_reach_inv:
  assumes "inter_reach q1 q2 w0 w c1 c2" "reg_inv (reg w0)"
  shows "inter_inv q1 q2 w c1 c2"
  using assms(1)
proof (induction rule: inter_reach.induct)
  case init
  then show ?case using assms(2) by (simp add: inter_inv_def holds_terminal_def init_cfg_def)
next
  case (first w c1 c2 c1')
  then show ?case using step_shared_inv [of w q1 c1 q2 c2 c1'] by (simp add: inter_inv_def)
next
  case (second w c1 c2 c2')
  then show ?case using step_shared_inv [of w q2 c2 q1 c1 c2'] by (simp add: inter_inv_def)
qed

lemma live_same_dir_eq:
  assumes "reg_inv r" "t1 \<in> set (terms r)" "alive t1" "t2 \<in> set (terms r)" "alive t2"
    "tcwd t1 = tcwd t2"
  shows "t1 = t2"
  using find_live_unique [OF assms(1-3) refl] find_live_unique [OF assms(1,4,5) assms(6) [symmetric]]
  by simp

lemma holds_entry_mono:
  "holds_entry q r c \<Longrightarrow> set (terms r) \<subseteq> set (terms r') \<Longrightarrow> holds_entry q r' c"
  by (auto simp: holds_entry_def list_ex_iff split: option.splits)

lemma holds_entry_close: "holds_entry q r c \<Longrightarrow> holds_entry q (close_terminal i r) c"
  by (force simp: holds_entry_def list_ex_iff close_terminal_terms split: option.splits)

lemma holds_entry_acquired:
  "tinfo c = Some (fst (get_or_create (call_dir q) r)) \<Longrightarrow>
   holds_entry q (snd (get_or_create (call_dir q) r)) c"
  using get_or_create_result [of "call_dir q" r "fst (get_or_create (call_dir q) r)"
      "snd (get_or_create (call_dir q) r)"]
  by (auto simp: holds_entry_def list_ex_iff)

lemma step_shared_entry:
  assumes "reg_inv (reg w)" "holds_entry q (reg w) c" "holds_entry q' (reg w) d"
    "step_shared q w c = Some c'"
  shows "reg_inv (reg (wst c')) \<and> holds_entry q (reg (wst c')) c' \<and>
    holds_entry q' (reg (wst c')) d"
proof -
  have e: "exec_step q (c\<lparr>wst := w\<rparr>) = Some c'"
    using assms(4) by (simp add: step_shared_def)
  show ?thesis
    using exec_step_effect [OF e]
  proof
    assume "reg (wst c') = reg (wst (c\<lparr>wst := w\<rparr>)) \<and> tinfo c' = tinfo (c\<lparr>wst := w\<rparr>)"
    then show ?thesis using assms(1-3) by (simp add: holds_entry_def)
  next
    assume "reg (wst c') = snd (get_or_create (call_dir q) (reg (wst (c\<lparr>wst := w\<rparr>)))) \<and>
      tinfo c' = Some (fst (get_or_create (call_dir q) (reg (wst (c\<lparr>wst := w\<rparr>)))))"
    then show ?thesis
      using get_or_create_inv [OF assms(1)] holds_entry_acquired
        holds_entry_mono [OF assms(3) get_or_create_terms_mono]
      by simp
  qed
qed

lemma inter_env_inv:
  assumes "inter_env q1 q2 w0 w c1 c2" "reg_inv (reg w0)"
  shows "reg_inv (reg w) \<and> holds_entry q1 (reg w) c1 \<and> holds_entry q2 (reg w) c2"
  using assms(1)
proof (induction rule: inter_env.induct)
  case init
  then show ?case using assms(2) by (simp add: holds_entry_def init_cfg_def)
next
  case (first w c1 c2 c1')
  then show ?case using step_shared_entry [of w q1 c1 q2 c2 c1'] by simp
next
  case (second w c1 c2 c2')
  then show ?case using step_shared_entry [of w q2 c2 q1 c1 c2'] by simp
next
  case (close w c1 c2 i)
  then show ?case by (simp add: close_terminal_inv holds_entry_close)
qed

text \<open>
  Under the registry invariant an identifier names one entry, and a live entry is
  the only live one for its directory; so the live entry of a held terminal is the
  one bound to the call's directory.
\<close>

lemma live_entry_unique:
  assumes "reg_inv r" "holds_entry q r c" "tinfo c = Some t" "is_live r (tid t)"
  shows "find_live (call_dir q) r = Some \<lparr>tid = tid t, tcwd = call_dir q, alive = True\<rparr>"
proof -
  obtain e where e: "e \<in> set (terms r)" "tid e = tid t" "alive e"
    using assms(4) by (auto simp: is_live_def list_ex_iff)
  obtain e' where e': "e' \<in> set (terms r)" "tid e' = tid t" "tcwd e' = call_dir q"
    using assms(2,3) by (auto simp: holds_entry_def list_ex_iff)
  have "distinct (map tid (terms r))" using assms(1) by (simp add: reg_inv_def)
  then have "inj_on tid (set (terms r))" by (simp add: distinct_map)
  then have "e = e'" using e e' by (metis inj_onD)
  then have "e = \<lparr>tid = tid t, tcwd = call_dir q, alive = True\<rparr>" using e e' by simp
  then show ?thesis using find_live_unique [OF assms(1) e(1) e(3)] e' \<open>e = e'\<close> by simp
qed

text \<open>
  C29: two calls on the same working directory, however their steps interleave,
  never hold two different terminals: once both have acquired one, it is the same
  (section 5: concurrent invocations against the same directory reuse the same
  session).
\<close>

theorem interleaved_same_directory_same_terminal:
  assumes "inter_reach q1 q2 w0 w c1 c2" "reg_inv (reg w0)" "call_dir q1 = call_dir q2"
    "tinfo c1 = Some t1" "tinfo c2 = Some t2"
  shows "t1 = t2"
proof -
  have "inter_inv q1 q2 w c1 c2" using assms(1,2) by (rule inter_reach_inv)
  then have "reg_inv (reg w)" "t1 \<in> set (terms (reg w))" "alive t1" "tcwd t1 = call_dir q1"
    "t2 \<in> set (terms (reg w))" "alive t2" "tcwd t2 = call_dir q2"
    using assms(4,5) by (simp_all add: inter_inv_def holds_terminal_def)
  then show ?thesis using assms(3) by (metis live_same_dir_eq)
qed

theorem interleaved_same_directory_same_terminal_witness:
  "\<exists>w c1 c2.
     inter_reach
       \<lparr>c_cwd = ''/ws'', c_cmd = ''ls'', c_custom = None, c_modify = False, c_bg = False,
        c_tmo = 300000, c_proc = \<lparr>events = [], finish = None\<rparr>\<rparr>
       \<lparr>c_cwd = ''/ws'', c_cmd = ''pwd'', c_custom = Some [], c_modify = False, c_bg = True,
        c_tmo = 300000, c_proc = \<lparr>events = [], finish = None\<rparr>\<rparr>
       \<lparr>confirm_nd = False, user_reply = [], reg = empty_registry, prompts = [],
        logs = [], shown = [], started = [], warns = [], clock = 0\<rparr> w c1 c2 \<and>
     ph c1 = PRunning \<and> ph c2 = PRunning \<and> tinfo c1 \<noteq> None \<and> tinfo c1 = tinfo c2"
proof -
  let ?q1 = "\<lparr>c_cwd = ''/ws'', c_cmd = ''ls'', c_custom = None, c_modify = False, c_bg = False,
        c_tmo = 300000, c_proc = \<lparr>events = [], finish = None\<rparr>\<rparr>"
  let ?q2 = "\<lparr>c_cwd = ''/ws'', c_cmd = ''pwd'', c_custom = Some [], c_modify = False, c_bg = True,
        c_tmo = 300000, c_proc = \<lparr>events = [], finish = None\<rparr>\<rparr>"
  let ?w0 = "\<lparr>confirm_nd = False, user_reply = [], reg = empty_registry, prompts = [],
        logs = [], shown = [], started = [], warns = [], clock = 0\<rparr>"
  have "\<exists>c1. step_shared ?q1 ?w0 (init_cfg ?w0) = Some c1 \<and> ph c1 = PRunning \<and>
      tinfo c1 \<noteq> None \<and> \<not> confirm_nd (wst c1)"
    by (simp add: step_shared_def init_cfg_def should_confirm_def enter_running_eq
        start_command_eq)
  then obtain c1 where s1: "step_shared ?q1 ?w0 (init_cfg ?w0) = Some c1" and
    p1: "ph c1 = PRunning" "tinfo c1 \<noteq> None" "\<not> confirm_nd (wst c1)" by blast
  have r1: "inter_reach ?q1 ?q2 ?w0 (wst c1) c1 (init_cfg ?w0)"
    using inter_reach.first [OF inter_reach.init s1] .
  have "\<exists>c2. step_shared ?q2 (wst c1) (init_cfg ?w0) = Some c2 \<and> ph c2 = PRunning \<and>
      tinfo c2 \<noteq> None"
    using p1(3) by (simp add: step_shared_def init_cfg_def should_confirm_def enter_running_eq
        start_command_eq Let_def)
  then obtain c2 where s2: "step_shared ?q2 (wst c1) (init_cfg ?w0) = Some c2" and
    p2: "ph c2 = PRunning" "tinfo c2 \<noteq> None" by blast
  have r2: "inter_reach ?q1 ?q2 ?w0 (wst c2) c1 c2"
    using inter_reach.second [OF r1 s2] .
  obtain t1 t2 where t: "tinfo c1 = Some t1" "tinfo c2 = Some t2" using p1(2) p2(2) by blast
  have i: "reg_inv (reg ?w0)" by (simp add: reg_inv_def empty_registry_def)
  have d: "call_dir ?q1 = call_dir ?q2" by (simp add: call_dir_def effective_cwd_def)
  have "t1 = t2" using interleaved_same_directory_same_terminal [OF r2 i d t] .
  then have "inter_reach ?q1 ?q2 ?w0 (wst c2) c1 c2 \<and> ph c1 = PRunning \<and> ph c2 = PRunning \<and>
      tinfo c1 \<noteq> None \<and> tinfo c1 = tinfo c2"
    using r2 p1 p2 t by simp
  then show ?thesis by (rule exI [where x = "wst c2", OF exI [where x = c1, OF exI [where x = c2]]])
qed

text \<open>
  C30: with the user closing terminals at any moment between the steps, two calls on
  the same working directory whose terminals are both still live hold the same
  terminal: a closed session is replaced by one new session, which every later
  call on that directory reuses (sections 3 and 5).
\<close>

theorem interleaved_closes_live_terminals_agree:
  assumes "inter_env q1 q2 w0 w c1 c2" "reg_inv (reg w0)" "call_dir q1 = call_dir q2"
    "tinfo c1 = Some t1" "tinfo c2 = Some t2"
    "is_live (reg w) (tid t1)" "is_live (reg w) (tid t2)"
  shows "t1 = t2"
proof -
  have i: "reg_inv (reg w)" "holds_entry q1 (reg w) c1" "holds_entry q2 (reg w) c2"
    using inter_env_inv [OF assms(1,2)] by simp_all
  have "\<lparr>tid = tid t1, tcwd = call_dir q1, alive = True\<rparr> =
        \<lparr>tid = tid t2, tcwd = call_dir q2, alive = True\<rparr>"
    using live_entry_unique [OF i(1,2) assms(4,6)] live_entry_unique [OF i(1,3) assms(5,7)]
      assms(3) by simp
  moreover have "t1 = \<lparr>tid = tid t1, tcwd = call_dir q1, alive = True\<rparr>"
    "t2 = \<lparr>tid = tid t2, tcwd = call_dir q2, alive = True\<rparr>"
    using i(2,3) assms(4,5) by (simp_all add: holds_entry_def)
  ultimately show ?thesis by simp
qed

theorem interleaved_closes_live_terminals_agree_witness:
  "\<exists>w c1 c2 t.
     inter_env
       \<lparr>c_cwd = ''/ws'', c_cmd = ''ls'', c_custom = None, c_modify = False, c_bg = False,
        c_tmo = 300000, c_proc = \<lparr>events = [], finish = None\<rparr>\<rparr>
       \<lparr>c_cwd = ''/ws'', c_cmd = ''pwd'', c_custom = None, c_modify = False, c_bg = True,
        c_tmo = 300000, c_proc = \<lparr>events = [], finish = None\<rparr>\<rparr>
       \<lparr>confirm_nd = False, user_reply = [],
        reg = \<lparr>terms = [\<lparr>tid = 1, tcwd = ''/ws'', alive = True\<rparr>], next_id = 2\<rparr>,
        prompts = [], logs = [], shown = [], started = [], warns = [], clock = 0\<rparr> w c1 c2 \<and>
     tinfo c1 = Some t \<and> tinfo c2 = Some t \<and> is_live (reg w) (tid t) \<and> tid t = 2"
proof -
  let ?q1 = "\<lparr>c_cwd = ''/ws'', c_cmd = ''ls'', c_custom = None, c_modify = False, c_bg = False,
        c_tmo = 300000, c_proc = \<lparr>events = [], finish = None\<rparr>\<rparr>"
  let ?q2 = "\<lparr>c_cwd = ''/ws'', c_cmd = ''pwd'', c_custom = None, c_modify = False, c_bg = True,
        c_tmo = 300000, c_proc = \<lparr>events = [], finish = None\<rparr>\<rparr>"
  let ?w0 = "\<lparr>confirm_nd = False, user_reply = [],
        reg = \<lparr>terms = [\<lparr>tid = 1, tcwd = ''/ws'', alive = True\<rparr>], next_id = 2\<rparr>,
        prompts = [], logs = [], shown = [], started = [], warns = [], clock = 0\<rparr>"
  let ?w1 = "?w0\<lparr>reg := close_terminal 1 (reg ?w0)\<rparr>"
  have r1: "inter_env ?q1 ?q2 ?w0 ?w1 (init_cfg ?w0) (init_cfg ?w0)"
    using inter_env.close [OF inter_env.init] .
  have "\<exists>c1. step_shared ?q1 ?w1 (init_cfg ?w0) = Some c1 \<and>
      tinfo c1 = Some \<lparr>tid = 2, tcwd = ''/ws'', alive = True\<rparr> \<and> \<not> confirm_nd (wst c1) \<and>
      reg (wst c1) = \<lparr>terms = [\<lparr>tid = 1, tcwd = ''/ws'', alive = False\<rparr>,
                               \<lparr>tid = 2, tcwd = ''/ws'', alive = True\<rparr>], next_id = 3\<rparr>"
    by (simp add: step_shared_def init_cfg_def should_confirm_def enter_running_eq
        start_command_eq close_terminal_def get_or_create_def find_live_def effective_cwd_def
        Let_def)
  then obtain c1 where s1: "step_shared ?q1 ?w1 (init_cfg ?w0) = Some c1" and
    p1: "tinfo c1 = Some \<lparr>tid = 2, tcwd = ''/ws'', alive = True\<rparr>" "\<not> confirm_nd (wst c1)"
      "reg (wst c1) = \<lparr>terms = [\<lparr>tid = 1, tcwd = ''/ws'', alive = False\<rparr>,
                               \<lparr>tid = 2, tcwd = ''/ws'', alive = True\<rparr>], next_id = 3\<rparr>"
    by blast
  have r2: "inter_env ?q1 ?q2 ?w0 (wst c1) c1 (init_cfg ?w0)"
    using inter_env.first [OF r1 s1] .
  have "\<exists>c2. step_shared ?q2 (wst c1) (init_cfg ?w0) = Some c2 \<and>
      tinfo c2 = Some \<lparr>tid = 2, tcwd = ''/ws'', alive = True\<rparr> \<and> reg (wst c2) = reg (wst c1)"
    using p1(2,3) by (simp add: step_shared_def init_cfg_def should_confirm_def enter_running_eq
        start_command_eq get_or_create_def find_live_def effective_cwd_def Let_def)
  then obtain c2 where s2: "step_shared ?q2 (wst c1) (init_cfg ?w0) = Some c2" and
    p2: "tinfo c2 = Some \<lparr>tid = 2, tcwd = ''/ws'', alive = True\<rparr>" "reg (wst c2) = reg (wst c1)"
    by blast
  have r3: "inter_env ?q1 ?q2 ?w0 (wst c2) c1 c2"
    using inter_env.second [OF r2 s2] .
  have l: "is_live (reg (wst c2)) 2" using p1(3) p2(2) by (simp add: is_live_def)
  have i: "reg_inv (reg ?w0)" by (simp add: reg_inv_def)
  have d: "call_dir ?q1 = call_dir ?q2" by (simp add: call_dir_def)
  have "\<lparr>tid = 2, tcwd = ''/ws'', alive = True\<rparr> = \<lparr>tid = 2, tcwd = ''/ws'', alive = True\<rparr>"
    using interleaved_closes_live_terminals_agree [OF r3 i d p1(1) p2(1)] l by simp
  then show ?thesis using r3 p1(1) p2(1) l by fastforce
qed

end
