(* ===== verification/Spec2Isabelle.thy ===== *)
theory Spec2Isabelle
  imports Handler Extension Interleave
begin

text \<open>
  \<^bold>\<open>A verification library for the command-execution tool of vscode-as-mcp-server.\<close>

  \<^emph>\<open>The program.\<close> The extension (\<open>src/packages/extension/src/extension.ts\<close>) starts
  an MCP server inside the editor; one of its tools, \<open>execute_command\<close>
  (\<open>src/packages/extension/src/tools/execute_command.ts\<close>), runs a shell command in
  an editor terminal for an automation client. A call flows through four parts:
  the argument schema fills in defaults; the confirmation gate decides whether to
  ask the user and stops the call on anything but approval; the terminal registry
  hands out a terminal bound to the working directory; the process handle streams
  the command's output lines and a completion event while \<open>execute\<close> either
  returns at once (background mode) or races the process against a timer, waits a
  grace delay, and reports the trimmed output. The handler wraps the result into
  the protocol response.

  \<^emph>\<open>The theories.\<close>
  \<^item> \<open>Prelude\<close>: the JavaScript string operations the replies are built with
    (\<open>trim\<close>, number printing, truthiness of strings), and their lemmas
    (\<open>js_trim\<close> is idempotent; printing a number and reading it back is the
    identity).
  \<^item> \<open>Request\<close>: \<open>executeCommandSchema\<close> (lines 8--30) as \<open>parse_params\<close> over a
    JSON object, with the defaults \<open>modifySomething = true\<close>, \<open>background = false\<close>,
    \<open>timeout = 300000\<close>, and every failing field reported.
  \<^item> \<open>Confirm\<close>: \<open>shouldConfirm\<close> (line 53), the prompt of \<open>ask\<close> (141--143), the
    approval test and the denial text (62--66).
  \<^item> \<open>Registry\<close>: \<open>TerminalManager.getOrCreateTerminal\<close>, which is not among the
    sources and is modelled from the specification (section 4.1), with terminals
    closed by the user as the other operation; an \<open>inductive\<close> set of reachable
    registries and its invariant (distinct, fresh identifiers; one live terminal per
    directory) proved by rule induction.
  \<^item> \<open>Process\<close>: the process handle as a timed event stream (specification,
    sections 3 and 4.2) and the three listeners \<open>execute\<close> attaches (lines 77--89)
    as a state record updated per event; \<open>once\<close> listeners are disarmed after
    firing.
  \<^item> \<open>Orchestrator\<close>: \<open>ExecuteCommandTool.execute\<close> (lines 41--139) over an explicit
    \<open>world\<close> (setting, reply to the prompt, registry, prompts, log, terminals shown,
    commands started, warnings, clock). The call is split as the source is: \<open>gate\<close>,
    \<open>start_command\<close>, the background return, the race and the grace delay
    (\<open>resume_time\<close>), \<open>final_reply\<close>.
  \<^item> \<open>Handler\<close>: \<open>executeCommandToolHandler\<close> (lines 146--168).
  \<^item> \<open>Extension\<close>: \<open>extension.ts\<close>: \<open>updateServerStatusBar\<close> (lines 12--41) as a
    function of the status, \<open>startServer\<close> (58--99) with its SSH port-forwarding
    attempt, the automatic port-forwarding configuration (113--137) and
    \<open>activate\<close> (43--150), over a \<open>host\<close> record that holds what the editor answers
    (settings, commands, which calls throw, what the transport reports) and what the
    extension leaves in it (output channel, status bar, transport, registrations).
    A call that throws returns the host as it stood and the printed error.
  \<^item> \<open>Phases\<close>: \<open>execute\<close> cut at its suspension points (prompt, start, race), as
    section 4.4 of the specification describes the call, as an executable step
    function \<open>exec_step\<close> over configurations (phase, world, terminal, reply), built
    from the same component functions, run with a fuel bound by \<open>run_fuel\<close>; the
    lemma \<open>run_fuel_agrees_with_execute\<close> shows that three steps give exactly the
    reply and the world of \<open>execute\<close>.
  \<^item> \<open>Interleave\<close>: two calls interleaved at their suspension points (section 5 of
    the specification): each call a configuration of \<open>Phases\<close>, the world and its
    registry shared. \<open>inter_reach\<close> is the set of states of every interleaving;
    \<open>inter_env\<close> adds the user closing terminals as steps of the environment. The
    invariants (\<open>inter_inv\<close>: the registry invariant and each call holding a live
    terminal of the registry bound to its directory; \<open>holds_entry\<close>: the entry of
    a held terminal is still in the registry) are proved by rule induction.

  \<^emph>\<open>Time.\<close> The only suspension points of a call are the prompt (its answer is part
  of the world), the race and the 50 ms grace delay. Time is a \<open>nat\<close> of
  milliseconds since the command started. The race settles at the earlier of the
  handle's resolution and the timer; the timer is \<open>setTimeout\<close>'s, which runs a delay
  outside \<open>1 .. 2^31 - 1\<close> after 1 ms (\<open>timer_delay\<close>). The listeners have received
  exactly the events stamped before the moment the call resumes; an event stamped at
  that very millisecond is taken to come after it. No fuel is needed: nothing in the
  modelled code loops; the waiting is the arithmetic of \<open>resume_time\<close>. The step
  model of \<open>Phases\<close> takes a fuel of 3, one step per suspension point, and
  \<open>run_fuel_agrees_with_execute\<close> shows that 3 is enough.

  \<^emph>\<open>What is proved.\<close> For \<open>execute\<close>: the prompt is shown exactly when the command
  is flagged as modifying or the setting asks for it (C1); a denial returns the
  denial text and touches no terminal (C2); a command completing within the
  timeout returns all its lines in order, joined and trimmed (C3); one that never
  finishes is reported as still running after the timer and the grace delay (C4);
  background mode returns at once naming the terminal (C5). For the handler: every
  response is flagged as an error (C6, a defect: the specification says only a
  missing workspace is), and a missing workspace stops the call before any work
  (C7). For the process handle: the shell-integration warning is shown at most once
  (C8) and the output buffer only grows at its end (C9). For the registry: the
  invariant holds in every reachable state (C10), acquisition is idempotent (C11),
  returns a live terminal of the requested directory (C12) and reuses the live one
  when there is one (C13). For the argument schema: parsing inverts the encoding of
  the parameters (C14), fills the defaults (C15) and rejects a missing command
  first (C16). A client reads the terminal identifier back out of every reply
  (C17). Two behaviours the specification does not foresee are theorems: a timeout
  above \<open>2^31 - 1\<close> ms ends the wait after 51 ms (C18), and an empty custom
  directory is ignored (C19). For the extension: activation always completes and
  registers the commands (C20); a successful connection reports the start and shows
  the final status (C21); a failed one is logged and leaves the status bar as last
  reported (C22); the status bar depends on the last status only (C23); the
  forwarded-port list gains the port at most once (C24), and does gain it when the
  host allows (C25); a \<open>portsAttributes\<close> setting that is not an array (as the
  editor declares it) makes the configuration fail with a \<open>TypeError\<close> (C26).
  Across the components: two calls on one directory, one after the other, run in
  the same terminal whatever the registry held before (C27, this theory); the
  shell-integration advisory is shown exactly once over the life of a call, before
  or after its reply, since the \<open>once\<close> listener stays attached (C28); two calls on
  the same directory hold the same terminal in every interleaving of their steps
  (C29), and, with the user closing terminals in between, whenever both terminals
  are still live (C30).

  \<^emph>\<open>Not modelled.\<close> The HTTP transport, the MCP server and the command registration
  (not among the sources); what the registered commands do later with the
  transport and \<open>startServer\<close>; the diff-view content provider (a base64 decoding
  by the \<open>Buffer\<close> library). The console logging of \<open>activate\<close> is omitted.
  Fractional JSON numbers, Unicode white space in \<open>trim\<close>, and the contents of
  the terminal's shell are outside the model. Exceptions of the collaborators of
  \<open>execute\<close> (\<open>getOrCreateTerminal\<close>, \<open>runCommand\<close>, a rejected process promise
  at line 111) are not represented: the code does not handle them, and section 7
  of the specification lets them propagate. The prompt is always answered (its
  answer is part of the world); what \<open>ConfirmationUI.confirm\<close> returns is not among
  the sources, and the model takes it, as section 4.3 does, to be \<open>Approve\<close>,
  \<open>Deny\<close> or feedback. The registry is one pool shared by all calls, as section 5
  says, although line 155 builds a new \<open>ExecuteCommandTool\<close> (and
  \<open>TerminalManager\<close>) per call: the pool of the real \<open>TerminalManager\<close>, which is
  not among the sources, is taken to be global. In \<open>Interleave\<close> acquiring a
  terminal is one atomic step, both calls' prompts are answered with the one reply
  of the world, and the shared clock adds up the waits of both calls, so no theorem
  there speaks of time.

  \<^emph>\<open>Left open.\<close> The universal properties of section 8 restated over the raw JSON
  arguments; a prompt that is never answered; the extension's status bar driven by
  a sequence of transport status changes after activation.
\<close>

text \<open>
  C27: two calls for the same working directory, one after the other, run in the same
  terminal (section 5 of the specification): the second call creates no terminal and
  both commands are started in the terminal the first one acquired, whatever the
  registry held before.
\<close>

theorem same_directory_same_terminal:
  assumes "gate_passes m1 w"
    "gate_passes m2 (snd (execute cwd c1 custom m1 b1 t1 p1 w))"
  shows "started (snd (execute cwd c2 custom m2 b2 t2 p2 (snd (execute cwd c1 custom m1 b1 t1 p1 w)))) =
      started w @ [(tid (acquired cwd custom w), c1), (tid (acquired cwd custom w), c2)] \<and>
    reg (snd (execute cwd c2 custom m2 b2 t2 p2 (snd (execute cwd c1 custom m1 b1 t1 p1 w)))) =
      reg (snd (execute cwd c1 custom m1 b1 t1 p1 w))"
proof -
  let ?w1 = "snd (execute cwd c1 custom m1 b1 t1 p1 w)"
  have f: "started ?w1 = started w @ [(tid (acquired cwd custom w), c1)]"
    "reg ?w1 = snd (get_or_create (effective_cwd cwd custom) (reg w))"
    using execute_started_reg [OF assms(1)] by simp_all
  have "get_or_create (effective_cwd cwd custom) (reg ?w1) = (acquired cwd custom w, reg ?w1)"
    using find_live_after_acquire f(2) by (simp add: acquired_def get_or_create_reuse)
  then have "acquired cwd custom ?w1 = acquired cwd custom w"
    "snd (get_or_create (effective_cwd cwd custom) (reg ?w1)) = reg ?w1"
    by (simp_all add: acquired_def)
  then show ?thesis
    using execute_started_reg [OF assms(2)] f(1) by simp
qed

theorem same_directory_same_terminal_witness:
  "gate_passes False \<lparr>confirm_nd = False, user_reply = [], reg = empty_registry, prompts = [],
      logs = [], shown = [], started = [], warns = [], clock = 0\<rparr> \<and>
   started (snd (execute ''/ws'' ''pwd'' None False True 300000 \<lparr>events = [], finish = None\<rparr>
     (snd (execute ''/ws'' ''ls'' None False True 300000 \<lparr>events = [], finish = None\<rparr>
       \<lparr>confirm_nd = False, user_reply = [], reg = empty_registry, prompts = [],
        logs = [], shown = [], started = [], warns = [], clock = 0\<rparr>)))) =
     [(1, ''ls''), (1, ''pwd'')]"
proof -
  let ?w = "\<lparr>confirm_nd = False, user_reply = [], reg = empty_registry, prompts = [],
        logs = [], shown = [], started = [], warns = [], clock = 0\<rparr>"
  let ?p = "\<lparr>events = [], finish = None\<rparr> :: proc_run"
  have b: "gate_passes False ?w" by (simp add: gate_passes_def should_confirm_def)
  have c: "gate_passes False (snd (execute ''/ws'' ''ls'' None False True 300000 ?p ?w))"
    using execute_started_reg [OF b, of "''/ws''" "''ls''" None True 300000 ?p]
    by (simp add: gate_passes_def should_confirm_def)
  have t: "tid (acquired ''/ws'' None ?w) = 1" by (simp add: acquire_eval)
  show ?thesis
    using b same_directory_same_terminal [OF b c, of "''pwd''" True 300000 ?p] t by simp
qed

end
